theory Spec2Isabelle
  imports Complex_Main "HOL-Library.Log_Nat" "HOL-Library.Char_ord" "HOL-Library.List_Lexorder"
    "HOL-Library.Product_Lexorder" "HOL-Library.Option_ord" "HOL-Library.AList"
begin

section \<open>Smart attendance backend: data model\<close>

text \<open>
  The model follows \<^verbatim>\<open>services.js\<close> (class \<^verbatim>\<open>AttendanceService\<close>, \<^verbatim>\<open>ReportService\<close>),
  the route handlers and cron jobs of \<^verbatim>\<open>server.js\<close> and the Mongoose schemas of
  \<^verbatim>\<open>models.js\<close>. A Mongo collection is a list of documents in insertion order,
  \<^verbatim>\<open>findOne\<close> is \<^const>\<open>find\<close> (the first match in that order) and \<^verbatim>\<open>find\<close> is
  \<^const>\<open>filter\<close>. An ObjectId is a natural number drawn from a counter of the store.
  A thrown \<^verbatim>\<open>Error\<close> and an early \<^verbatim>\<open>res.status(..).json({error})\<close> are both values
  \<open>HttpError status message\<close> on the left of a sum. The authenticated principal is an
  argument of each handler; authentication, role checks, the audit log and the push
  notifications write nothing to the collections modelled here and are left out, as are
  failures of the database itself.
\<close>

type_synonym objectId = nat

text \<open>
  A JavaScript \<^verbatim>\<open>Date\<close> is its millisecond count. The count is taken in the server's local
  time (a fixed offset from UTC, no daylight saving), so that day 0 starts at local midnight of
  Thursday 1970-01-01. The argument \<open>now\<close> of a handler stands for the \<^verbatim>\<open>new Date()\<close> and
  \<^verbatim>\<open>Date.now()\<close> readings written in the handler's own code. The \<^verbatim>\<open>createdAt\<close> of a session
  is not among them: it is the schema default \<^verbatim>\<open>Date.now\<close>, read when Mongoose builds the
  document, after the argument of \<^verbatim>\<open>Session.create\<close> has been evaluated. It is the separate
  argument \<open>created\<close> of the session start. (The \<^verbatim>\<open>createdAt\<close> of an attendance event, which
  no property below reads, is given the handler's reading.)
\<close>

type_synonym timestamp = int

definition msPerDay :: int where
  "msPerDay = 86400000"

definition msPerHour :: int where
  "msPerHour = 3600000"

definition setHours0 :: "timestamp \<Rightarrow> timestamp" where
  \<comment> \<open>\<^verbatim>\<open>d.setHours(0, 0, 0, 0)\<close>: local midnight of the day of \<open>d\<close>\<close>
  "setHours0 d = d - d mod msPerDay"

definition getHours :: "timestamp \<Rightarrow> int" where
  "getHours d = (d mod msPerDay) div msPerHour"

definition getDay :: "timestamp \<Rightarrow> int" where
  \<comment> \<open>0 is Sunday, 6 is Saturday\<close>
  "getDay d = (d div msPerDay + 4) mod 7"

datatype error = HttpError nat string

datatype holidayType = SPECIAL | SATURDAY_WORKING

record holiday =
  h_name :: string
  h_startDate :: timestamp
  h_endDate :: timestamp
  h_type :: holidayType
  h_mappedDay :: "string option"

record holidayStatus =
  hs_isHoliday :: bool
  hs_isWorkingDay :: "bool option"
  hs_mappedDay :: "string option"
  hs_reason :: "string option"

subsection \<open>AttendanceService.isHoliday\<close>

definition findHoliday :: "holiday list \<Rightarrow> timestamp \<Rightarrow> holiday option" where
  \<comment> \<open>\<^verbatim>\<open>Holiday.findOne({startDate: {$lte: checkDate}, endDate: {$gte: checkDate}})\<close>\<close>
  "findHoliday hs checkDate =
     find (\<lambda>h. h_startDate h \<le> checkDate \<and> h_endDate h \<ge> checkDate) hs"

definition regularDay :: "int \<Rightarrow> holidayStatus" where
  \<comment> \<open>the tail of \<^verbatim>\<open>isHoliday\<close>, after the holiday record was looked at\<close>
  "regularDay dayOfWeek =
     (if dayOfWeek = 6
      then \<lparr>hs_isHoliday = True, hs_isWorkingDay = None, hs_mappedDay = None,
            hs_reason = Some ''Saturday''\<rparr>
      else \<lparr>hs_isHoliday = False, hs_isWorkingDay = None, hs_mappedDay = None,
            hs_reason = None\<rparr>)"

definition isHoliday :: "holiday list \<Rightarrow> timestamp \<Rightarrow> holidayStatus" where
  "isHoliday hs date =
     (let dayOfWeek = getDay date in
      if dayOfWeek = 0
      then \<lparr>hs_isHoliday = True, hs_isWorkingDay = None, hs_mappedDay = None,
            hs_reason = Some ''Sunday''\<rparr>
      else
        (case findHoliday hs (setHours0 date) of
           Some h \<Rightarrow>
             if h_type h = SPECIAL
             then \<lparr>hs_isHoliday = True, hs_isWorkingDay = None, hs_mappedDay = None,
                   hs_reason = Some (h_name h)\<rparr>
             else if h_type h = SATURDAY_WORKING \<and> dayOfWeek = 6
             then \<lparr>hs_isHoliday = False, hs_isWorkingDay = Some True,
                   hs_mappedDay = h_mappedDay h, hs_reason = Some ''Working Saturday''\<rparr>
             else regularDay dayOfWeek
         | None \<Rightarrow> regularDay dayOfWeek))"

text \<open>Concrete instants: 2024-01-13 is a Saturday (day 19735), 2024-01-15 a Monday.\<close>

definition sat_0900 :: timestamp where
  "sat_0900 = 19735 * 86400000 + 9 * 3600000"

definition sun_0900 :: timestamp where
  "sun_0900 = 19736 * 86400000 + 9 * 3600000"

definition mon_0900 :: timestamp where
  "mon_0900 = 19737 * 86400000 + 9 * 3600000"

definition workingSat :: holiday where
  "workingSat = \<lparr>h_name = ''Compensation'', h_startDate = 19735 * 86400000,
     h_endDate = 19735 * 86400000, h_type = SATURDAY_WORKING, h_mappedDay = Some ''monday''\<rparr>"

definition fest :: holiday where
  "fest = \<lparr>h_name = ''Fest'', h_startDate = 19735 * 86400000,
     h_endDate = 19737 * 86400000, h_type = SPECIAL, h_mappedDay = None\<rparr>"

section \<open>Documents and the store\<close>

datatype exn = Error string

fun message :: "exn \<Rightarrow> string" where
  "message (Error m) = m"

datatype attType = CAMPUS | CLASS

datatype attStatus = PRESENT | ABSENT | LATE

datatype mode = GPS | BLE | WIFI | INTERNET | MANUAL

datatype requestType = MANUAL_ATTENDANCE | FRIEND_ATTENDANCE

datatype requestStatus = PENDING | APPROVED | REJECTED

record location =
  latitude :: real
  longitude :: real

record student =
  st_id :: objectId
  st_rollNumber :: string
  st_name :: string
  st_classId :: objectId
  st_isActive :: bool

record session =
  se_id :: objectId
  se_classId :: objectId
  se_teacherId :: objectId
  se_date :: timestamp
  se_period :: nat
  se_mode :: mode
  se_token :: string
  se_code :: "string option"
  se_ssid :: "string option"
  se_isActive :: bool
  se_expiresAt :: timestamp
  se_presentStudents :: "objectId list"
  se_createdAt :: timestamp

record attendance =
  at_id :: objectId
  at_studentId :: objectId
  at_classId :: objectId
  at_date :: timestamp
  at_type :: attType
  at_period :: "nat option"
  at_status :: attStatus
  at_mode :: "mode option"
  at_location :: "location option"
  at_deviceId :: "string option"
  at_markedBy :: "objectId option"
  at_reason :: "string option"
  at_createdAt :: timestamp

record request =
  rq_id :: objectId
  rq_studentId :: objectId
  rq_type :: requestType
  rq_date :: timestamp
  rq_period :: "nat option"
  rq_reason :: string
  rq_status :: requestStatus
  rq_reviewedBy :: "objectId option"
  rq_reviewNote :: "string option"

record store =
  students :: "student list"
  sessions :: "session list"
  attendances :: "attendance list"
  requests :: "request list"
  holidays :: "holiday list"
  nextId :: objectId

text \<open>
  The route handlers answer a thrown error with \<^verbatim>\<open>res.status(500).json({error: error.message})\<close>.
  An operation returns its outcome together with the store it leaves behind, since a handler
  may have written before it throws.
\<close>

definition catch500 :: "(exn + 'a) \<times> store \<Rightarrow> (error + 'a) \<times> store" where
  "catch500 r = (case fst r of Inl e \<Rightarrow> (Inl (HttpError 500 (message e)), snd r)
                            | Inr v \<Rightarrow> (Inr v, snd r))"

definition validationFailed :: error where
  \<comment> \<open>\<^verbatim>\<open>handleValidation\<close>: \<^verbatim>\<open>res.status(400).json({errors: errors.array()})\<close>\<close>
  "validationFailed = HttpError 400 ''validation errors''"

definition nullRead :: "string \<Rightarrow> exn" where
  \<comment> \<open>the TypeError of a property read on \<^verbatim>\<open>null\<close>\<close>
  "nullRead field = Error (''Cannot read properties of null (reading '' @ field @ '')'')"

subsection \<open>Schema validation and document creation\<close>

definition periodInRange :: "nat \<Rightarrow> bool" where
  \<comment> \<open>\<^verbatim>\<open>period: {type: Number, min: 1, max: 8}\<close>\<close>
  "periodInRange p = (1 \<le> p \<and> p \<le> 8)"

definition sessionMode :: "mode \<Rightarrow> bool" where
  \<comment> \<open>\<^verbatim>\<open>enum: ["BLE", "WIFI", "INTERNET"]\<close>\<close>
  "sessionMode m = (m = BLE \<or> m = WIFI \<or> m = INTERNET)"

definition Attendance_create :: "store \<Rightarrow> attendance \<Rightarrow> (exn + attendance) \<times> store" where
  \<comment> \<open>\<^verbatim>\<open>Attendance.create(doc)\<close>: the schema has no unique index, only the range of period\<close>
  "Attendance_create st doc =
     (if (case at_period doc of None \<Rightarrow> False | Some p \<Rightarrow> \<not> periodInRange p)
      then (Inl (Error ''Attendance validation failed: period''), st)
      else
        let a = doc\<lparr>at_id := nextId st\<rparr>
        in (Inr a, st\<lparr>attendances := attendances st @ [a], nextId := Suc (nextId st)\<rparr>))"

definition Session_create :: "store \<Rightarrow> session \<Rightarrow> (exn + session) \<times> store" where
  \<comment> \<open>\<^verbatim>\<open>Session.create(doc)\<close>: period range, mode enum, and the unique index on token\<close>
  "Session_create st doc =
     (if \<not> periodInRange (se_period doc) \<or> \<not> sessionMode (se_mode doc)
      then (Inl (Error ''Session validation failed''), st)
      else if \<exists>s \<in> set (sessions st). se_token s = se_token doc
      then (Inl (Error ''E11000 duplicate key error: token''), st)
      else
        let s = doc\<lparr>se_id := nextId st\<rparr>
        in (Inr s, st\<lparr>sessions := sessions st @ [s], nextId := Suc (nextId st)\<rparr>))"

definition findById :: "('a \<Rightarrow> objectId) \<Rightarrow> 'a list \<Rightarrow> objectId \<Rightarrow> 'a option" where
  "findById ident docs i = find (\<lambda>d. ident d = i) docs"

subsection \<open>Session start: route and AttendanceService.createSession\<close>

text \<open>
  \<open>token\<close> is the value of \<^verbatim>\<open>crypto.randomBytes(32).toString("hex")\<close> and \<open>rcode\<close> the value of
  \<^verbatim>\<open>Math.random().toString(36).substring(2, 8).toUpperCase()\<close>: the random draws are inputs.
  The push notifications that follow the insert do not touch the store and swallow their own
  failures; they are left out.
\<close>

definition createSession ::
  "store \<Rightarrow> timestamp \<Rightarrow> timestamp \<Rightarrow> string \<Rightarrow> string \<Rightarrow> objectId \<Rightarrow> objectId \<Rightarrow> nat
     \<Rightarrow> mode \<Rightarrow> (exn + session) \<times> store" where
  \<comment> \<open>\<open>now\<close> is the reading of \<^verbatim>\<open>new Date(Date.now() + 15 * 60 * 1000)\<close> in the argument of
      \<^verbatim>\<open>Session.create\<close>; \<open>created\<close> is the later reading of the schema default
      \<^verbatim>\<open>createdAt: {type: Date, default: Date.now}\<close>\<close>
  "createSession st now created token rcode classId teacherId period mode =
     (let code = (if mode = INTERNET then Some rcode else None);
          ssid = (if mode = WIFI then Some (''SmartAttend_'' @ take 8 token) else None)
      in Session_create st
           \<lparr>se_id = 0, se_classId = classId, se_teacherId = teacherId, se_date = now,
            se_period = period, se_mode = mode, se_token = token, se_code = code,
            se_ssid = ssid, se_isActive = True, se_expiresAt = now + 15 * 60 * 1000,
            se_presentStudents = [], se_createdAt = created\<rparr>)"

definition startSession ::
  "store \<Rightarrow> timestamp \<Rightarrow> timestamp \<Rightarrow> string \<Rightarrow> string \<Rightarrow> objectId \<Rightarrow> objectId \<Rightarrow> nat
     \<Rightarrow> mode \<Rightarrow> (error + session) \<times> store" where
  \<comment> \<open>\<^verbatim>\<open>POST /api/attendance/session/start\<close>; \<open>teacherId\<close> is \<^verbatim>\<open>req.user._id\<close>\<close>
  "startSession st now created token rcode teacherId classId period mode =
     (if \<not> periodInRange period \<or> \<not> sessionMode mode then (Inl validationFailed, st)
      else
        let holidayStatus = isHoliday (holidays st) now in
        if hs_isHoliday holidayStatus
        then (Inl (HttpError 400 (''Cannot take attendance on '' @
                (case hs_reason holidayStatus of Some r \<Rightarrow> r | None \<Rightarrow> ''undefined''))), st)
        else
          (case find (\<lambda>s. se_classId s = classId \<and> se_date s = setHours0 now
                           \<and> se_period s = period \<and> se_isActive s) (sessions st) of
             Some existingSession \<Rightarrow>
               (Inl (HttpError 400 ''Session already active for this period''), st)
           | None \<Rightarrow>
               catch500 (createSession st now created token rcode classId teacherId period
                           mode)))"

subsection \<open>Class marking: route and AttendanceService.markAttendance\<close>

definition duplicateMark ::
  "store \<Rightarrow> timestamp \<Rightarrow> session \<Rightarrow> objectId \<Rightarrow> attendance option" where
  \<comment> \<open>\<^verbatim>\<open>Attendance.findOne({studentId, classId: session.classId,
      date: new Date().setHours(0, 0, 0, 0), period: session.period})\<close>\<close>
  "duplicateMark st now session studentId =
     find (\<lambda>a. at_studentId a = studentId \<and> at_classId a = se_classId session
                \<and> at_date a = setHours0 now \<and> at_period a = Some (se_period session))
       (attendances st)"

definition markAttendance ::
  "store \<Rightarrow> timestamp \<Rightarrow> objectId \<Rightarrow> objectId \<Rightarrow> string option \<Rightarrow> location option
     \<Rightarrow> (exn + attendance) \<times> store" where
  "markAttendance st now sessionId studentId deviceId loc =
     (case findById se_id (sessions st) sessionId of
        None \<Rightarrow> (Inl (Error ''Invalid or expired session''), st)
      | Some session \<Rightarrow>
          if \<not> se_isActive session \<or> se_expiresAt session < now
          then (Inl (Error ''Invalid or expired session''), st)
          else
            (case duplicateMark st now session studentId of
               Some existing \<Rightarrow> (Inl (Error ''Attendance already marked''), st)
             | None \<Rightarrow>
                 (case Attendance_create st
                         \<lparr>at_id = 0, at_studentId = studentId, at_classId = se_classId session,
                          at_date = now, at_type = CLASS, at_period = Some (se_period session),
                          at_status = PRESENT, at_mode = Some (se_mode session),
                          at_location = loc, at_deviceId = deviceId,
                          at_markedBy = Some (se_teacherId session), at_reason = None,
                          at_createdAt = now\<rparr> of
                    (Inl e, st') \<Rightarrow> (Inl e, st')
                  | (Inr attendance, st') \<Rightarrow>
                      (Inr attendance,
                       st'\<lparr>sessions :=
                             map (\<lambda>s. if se_id s = sessionId
                                       then s\<lparr>se_presentStudents :=
                                                 se_presentStudents s @ [studentId]\<rparr>
                                       else s) (sessions st')\<rparr>))))"

definition markRoute ::
  "store \<Rightarrow> timestamp \<Rightarrow> objectId \<Rightarrow> string option \<Rightarrow> objectId \<Rightarrow> string \<Rightarrow> location option
     \<Rightarrow> (error + attendance) \<times> store" where
  \<comment> \<open>\<^verbatim>\<open>POST /api/attendance/mark\<close>; \<open>userId\<close> is \<^verbatim>\<open>req.user._id\<close>, \<open>deviceId\<close> the X-Device-Id header\<close>
  "markRoute st now userId deviceId sessionId token loc =
     (if token = [] then (Inl validationFailed, st)
      else
        (case findById se_id (sessions st) sessionId of
           None \<Rightarrow> (Inl (HttpError 400 ''Invalid session or token''), st)
         | Some session \<Rightarrow>
             if se_token session \<noteq> token
             then (Inl (HttpError 400 ''Invalid session or token''), st)
             else catch500 (markAttendance st now sessionId userId deviceId loc)))"

subsection \<open>Campus marking\<close>

text \<open>
  The distance is computed here over the real numbers; the source computes the same
  expression in binary64.
\<close>

definition atan2 :: "real \<Rightarrow> real \<Rightarrow> real" where
  "atan2 y x =
     (if 0 < x then arctan (y / x)
      else if x < 0 then (if 0 \<le> y then arctan (y / x) + pi else arctan (y / x) - pi)
      else if 0 < y then pi / 2 else if y < 0 then - pi / 2 else 0)"

definition calculateDistance :: "real \<Rightarrow> real \<Rightarrow> real \<Rightarrow> real \<Rightarrow> real" where
  "calculateDistance lat1 lon1 lat2 lon2 =
     (let R = 6371000;
          phi1 = (lat1 * pi) / 180;
          phi2 = (lat2 * pi) / 180;
          dphi = ((lat2 - lat1) * pi) / 180;
          dlambda = ((lon2 - lon1) * pi) / 180;
          a = sin (dphi / 2) * sin (dphi / 2)
              + cos phi1 * cos phi2 * sin (dlambda / 2) * sin (dlambda / 2);
          c = 2 * atan2 (sqrt a) (sqrt (1 - a))
      in R * c)"

definition isWithinCampus :: "real \<Rightarrow> real \<Rightarrow> bool" where
  "isWithinCampus lat lon = (calculateDistance 13.0827 80.2707 lat lon \<le> 500)"

definition markCampusAttendance ::
  "store \<Rightarrow> timestamp \<Rightarrow> objectId \<Rightarrow> location \<Rightarrow> string option
     \<Rightarrow> (exn + attendance) \<times> store" where
  "markCampusAttendance st now studentId loc deviceId =
     (let today = setHours0 now in
      case find (\<lambda>a. at_studentId a = studentId \<and> at_date a = today \<and> at_type a = CAMPUS)
             (attendances st) of
        Some existing \<Rightarrow> (Inr existing, st)
      | None \<Rightarrow>
          if getHours now \<ge> 11
          then (Inl (Error ''Campus attendance closed after 11:00 AM''), st)
          else if \<not> isWithinCampus (latitude loc) (longitude loc)
          then (Inl (Error ''Not within campus bounds''), st)
          else
            (case findById st_id (students st) studentId of
               None \<Rightarrow> (Inl (nullRead ''classId''), st)
             | Some student \<Rightarrow>
                 Attendance_create st
                   \<lparr>at_id = 0, at_studentId = studentId, at_classId = st_classId student,
                    at_date = now, at_type = CAMPUS, at_period = None, at_status = PRESENT,
                    at_mode = Some GPS, at_location = Some loc, at_deviceId = deviceId,
                    at_markedBy = None, at_reason = None, at_createdAt = now\<rparr>))"

definition campusRoute ::
  "store \<Rightarrow> timestamp \<Rightarrow> objectId \<Rightarrow> string option \<Rightarrow> location
     \<Rightarrow> (error + attendance) \<times> store" where
  \<comment> \<open>\<^verbatim>\<open>POST /api/attendance/campus\<close>\<close>
  "campusRoute st now userId deviceId loc =
     catch500 (markCampusAttendance st now userId loc deviceId)"

subsection \<open>Manual approval, absence reasons and the scheduled sweeps\<close>

definition reviewRequest ::
  "store \<Rightarrow> timestamp \<Rightarrow> objectId \<Rightarrow> objectId \<Rightarrow> requestStatus \<Rightarrow> string option
     \<Rightarrow> (error + request) \<times> store" where
  \<comment> \<open>\<^verbatim>\<open>PUT /api/requests/:id/review\<close>; \<open>teacherId\<close> is \<^verbatim>\<open>req.user._id\<close>\<close>
  "reviewRequest st now teacherId requestId status reviewNote =
     (if status \<noteq> APPROVED \<and> status \<noteq> REJECTED then (Inl validationFailed, st)
      else catch500
        (case findById rq_id (requests st) requestId of
           None \<Rightarrow> (Inl (nullRead (if status = APPROVED then ''type'' else ''studentId'')), st)
         | Some r \<Rightarrow>
             let request = r\<lparr>rq_status := status, rq_reviewNote := reviewNote,
                              rq_reviewedBy := Some teacherId\<rparr>;
                 st1 = st\<lparr>requests := map (\<lambda>q. if rq_id q = requestId then request else q)
                                            (requests st)\<rparr>
             in
               (case findById st_id (students st1) (rq_studentId request) of
                  None \<Rightarrow> (Inl (nullRead ''_id''), st1)
                | Some student \<Rightarrow>
                    if status = APPROVED \<and> rq_type request = MANUAL_ATTENDANCE
                    then
                      (case Attendance_create st1
                              \<lparr>at_id = 0, at_studentId = st_id student,
                               at_classId = st_classId student, at_date = rq_date request,
                               at_type = (case rq_period request of
                                            None \<Rightarrow> CAMPUS
                                          | Some p \<Rightarrow> if p = 0 then CAMPUS else CLASS),
                               at_period = rq_period request, at_status = PRESENT,
                               at_mode = Some MANUAL, at_location = None, at_deviceId = None,
                               at_markedBy = Some teacherId,
                               at_reason = Some (rq_reason request), at_createdAt = now\<rparr> of
                         (Inl e, st2) \<Rightarrow> (Inl e, st2)
                       | (Inr a, st2) \<Rightarrow> (Inr request, st2))
                    else (Inr request, st1))))"

definition submitAbsenceReason ::
  "store \<Rightarrow> objectId \<Rightarrow> timestamp \<Rightarrow> string \<Rightarrow> (error + unit) \<times> store" where
  \<comment> \<open>\<^verbatim>\<open>POST /api/attendance/absence-reason\<close>\<close>
  "submitAbsenceReason st userId date reason =
     (if length reason < 10 \<or> 500 < length reason then (Inl validationFailed, st)
      else (Inr (),
            st\<lparr>attendances :=
                 map (\<lambda>a. if at_studentId a = userId \<and> at_date a = setHours0 date
                              \<and> at_status a = ABSENT
                           then a\<lparr>at_reason := Some reason\<rparr> else a) (attendances st)\<rparr>))"

fun markAbsent :: "store \<Rightarrow> timestamp \<Rightarrow> student list \<Rightarrow> (exn + unit) \<times> store" where
  \<comment> \<open>the \<^verbatim>\<open>for (const student of students)\<close> loop of the 11:00 job; a throw leaves the loop\<close>
  "markAbsent st now [] = (Inr (), st)"
| "markAbsent st now (student # rest) =
     (case find (\<lambda>a. at_studentId a = st_id student \<and> at_date a = setHours0 now
                     \<and> at_type a = CAMPUS) (attendances st) of
        Some campusAttendance \<Rightarrow> markAbsent st now rest
      | None \<Rightarrow>
          (case Attendance_create st
                  \<lparr>at_id = 0, at_studentId = st_id student, at_classId = st_classId student,
                   at_date = now, at_type = CAMPUS, at_period = None, at_status = ABSENT,
                   at_mode = None, at_location = None, at_deviceId = None,
                   at_markedBy = None, at_reason = None, at_createdAt = now\<rparr> of
             (Inl e, st') \<Rightarrow> (Inl e, st')
           | (Inr a, st') \<Rightarrow> markAbsent st' now rest))"

definition autoAbsent :: "store \<Rightarrow> timestamp \<Rightarrow> store" where
  \<comment> \<open>\<^verbatim>\<open>cron.schedule("0 11 * * 1-6", ...)\<close>: errors are caught and logged\<close>
  "autoAbsent st now =
     (if hs_isHoliday (isHoliday (holidays st) now) then st
      else snd (markAbsent st now (filter st_isActive (students st))))"

definition expireSessions :: "store \<Rightarrow> timestamp \<Rightarrow> store" where
  \<comment> \<open>\<^verbatim>\<open>cron.schedule("0 * * * *", ...)\<close>\<close>
  "expireSessions st now =
     st\<lparr>sessions := map (\<lambda>s. if se_isActive s \<and> se_expiresAt s < now
                              then s\<lparr>se_isActive := False\<rparr> else s) (sessions st)\<rparr>"

subsection \<open>Runs of operations\<close>

datatype operation =
    StartSession timestamp timestamp string string objectId objectId nat mode
  | Mark timestamp objectId "string option" objectId string "location option"
  | Campus timestamp objectId "string option" location
  | Review timestamp objectId objectId requestStatus "string option"
  | AbsenceReason objectId timestamp string
  | AutoAbsent timestamp
  | ExpireSessions timestamp

fun step :: "store \<Rightarrow> operation \<Rightarrow> store" where
  "step st (StartSession now created token rcode teacherId classId period mode) =
     snd (startSession st now created token rcode teacherId classId period mode)"
| "step st (Mark now userId deviceId sessionId token loc) =
     snd (markRoute st now userId deviceId sessionId token loc)"
| "step st (Campus now userId deviceId loc) = snd (campusRoute st now userId deviceId loc)"
| "step st (Review now teacherId requestId status reviewNote) =
     snd (reviewRequest st now teacherId requestId status reviewNote)"
| "step st (AbsenceReason userId date reason) = snd (submitAbsenceReason st userId date reason)"
| "step st (AutoAbsent now) = autoAbsent st now"
| "step st (ExpireSessions now) = expireSessions st now"

definition run :: "store \<Rightarrow> operation list \<Rightarrow> store" where
  "run st ops = foldl step st ops"

subsection \<open>ReportService.generateAttendanceReport\<close>

text \<open>
  JavaScript numbers are binary64. \<open>fl64\<close> rounds a non-negative rational to the nearest
  binary64 value, ties to even (normal range, 53 significant bits); \<open>jsDiv\<close> and \<open>jsMul\<close>
  are the correctly rounded operations, and \<^verbatim>\<open>Math.round\<close> takes the nearest integer, a tie
  going up.
\<close>

definition scale2 :: "rat \<Rightarrow> int \<Rightarrow> rat" where
  "scale2 x e = (if 0 \<le> e then x * 2 ^ nat e else x / 2 ^ nat (- e))"

definition ilog2 :: "rat \<Rightarrow> int" where
  \<comment> \<open>for \<open>0 < x\<close>: the \<open>e\<close> with \<open>2 ^ e \<le> x < 2 ^ (e + 1)\<close>\<close>
  "ilog2 x =
     (let (p, q) = quotient_of x;
          e0 = bitlen p - bitlen q
      in if scale2 1 e0 \<le> x then e0 else e0 - 1)"

definition fl64 :: "rat \<Rightarrow> rat" where
  "fl64 x =
     (if x \<le> 0 then 0
      else
        let e = ilog2 x;
            m = scale2 x (52 - e);
            f = \<lfloor>m\<rfloor>;
            r = m - of_int f;
            n = (if r < 1 / 2 then f else if 1 / 2 < r then f + 1
                 else if even f then f else f + 1)
        in scale2 (of_int n) (e - 52))"

definition jsDiv :: "rat \<Rightarrow> rat \<Rightarrow> rat" where
  "jsDiv x y = fl64 (x / y)"

definition jsMul :: "rat \<Rightarrow> rat \<Rightarrow> rat" where
  "jsMul x y = fl64 (x * y)"

definition mathRound :: "rat \<Rightarrow> int" where
  "mathRound x = \<lfloor>x + 1 / 2\<rfloor>"

record reportRow =
  r_name :: string
  r_rollNumber :: string
  r_totalClasses :: nat
  r_present :: nat
  r_absent :: nat
  r_percentage :: int

definition emptyRow :: "student \<Rightarrow> reportRow" where
  "emptyRow student =
     \<lparr>r_name = st_name student, r_rollNumber = st_rollNumber student, r_totalClasses = 0,
      r_present = 0, r_absent = 0, r_percentage = 0\<rparr>"

definition countRecord :: "attendance \<Rightarrow> reportRow \<Rightarrow> reportRow" where
  \<comment> \<open>the body of \<^verbatim>\<open>attendances.forEach\<close> on the row of the record's student\<close>
  "countRecord record row =
     (let row1 = row\<lparr>r_totalClasses := r_totalClasses row + 1\<rparr>
      in if at_status record = PRESENT then row1\<lparr>r_present := r_present row1 + 1\<rparr>
         else row1\<lparr>r_absent := r_absent row1 + 1\<rparr>)"

fun tally ::
  "student list \<Rightarrow> (objectId \<times> reportRow) list \<Rightarrow> attendance list
     \<Rightarrow> exn + (objectId \<times> reportRow) list" where
  \<comment> \<open>\<open>stats\<close> is the object keyed by student id, in insertion order. \<^verbatim>\<open>populate\<close> leaves
      \<^verbatim>\<open>null\<close> for a student that is not in the collection, and \<^verbatim>\<open>record.studentId._id\<close>
      throws on it.\<close>
  "tally studs stats [] = Inr stats"
| "tally studs stats (record # rest) =
     (case findById st_id studs (at_studentId record) of
        None \<Rightarrow> Inl (nullRead ''_id'')
      | Some populated \<Rightarrow>
          let studentId = st_id populated in
          (case map_of stats studentId of
             Some row \<Rightarrow> tally studs (AList.update studentId (countRecord record row) stats) rest
           | None \<Rightarrow> tally studs stats rest))"

definition percentage :: "reportRow \<Rightarrow> reportRow" where
  "percentage stat =
     (if r_totalClasses stat > 0
      then stat\<lparr>r_percentage :=
             mathRound (jsMul (jsDiv (of_nat (r_present stat)) (of_nat (r_totalClasses stat)))
                          100)\<rparr>
      else stat)"

definition generateAttendanceReport ::
  "store \<Rightarrow> objectId \<Rightarrow> timestamp \<Rightarrow> timestamp \<Rightarrow> exn + reportRow list" where
  \<comment> \<open>the \<^verbatim>\<open>json\<close> format; CSV and PDF render the same rows\<close>
  "generateAttendanceReport st classId startDate endDate =
     (let found = sort_key (\<lambda>a. (- at_date a, at_period a))
                    (filter (\<lambda>a. at_classId a = classId \<and> startDate \<le> at_date a
                                   \<and> at_date a \<le> endDate) (attendances st));
          roster = sort_key st_rollNumber (filter (\<lambda>s. st_classId s = classId) (students st));
          stats = foldl (\<lambda>acc student. AList.update (st_id student) (emptyRow student) acc)
                    [] roster
      in case tally (students st) stats found of
           Inl e \<Rightarrow> Inl e
         | Inr counted \<Rightarrow> Inr (map (\<lambda>kv. percentage (snd kv)) counted))"

section \<open>Concrete stores and instants\<close>

definition mon_0901 :: timestamp where
  "mon_0901 = 19737 * 86400000 + 9 * 3600000 + 60000"

definition mon_0905 :: timestamp where
  "mon_0905 = 19737 * 86400000 + 9 * 3600000 + 5 * 60000"

definition mon_0906 :: timestamp where
  "mon_0906 = 19737 * 86400000 + 9 * 3600000 + 6 * 60000"

definition mon_0920 :: timestamp where
  "mon_0920 = 19737 * 86400000 + 9 * 3600000 + 20 * 60000"

definition mon_1000 :: timestamp where
  "mon_1000 = 19737 * 86400000 + 10 * 3600000"

definition mon_1030 :: timestamp where
  "mon_1030 = 19737 * 86400000 + 10 * 3600000 + 30 * 60000"

definition mon_1100 :: timestamp where
  "mon_1100 = 19737 * 86400000 + 11 * 3600000"

definition mon_1105 :: timestamp where
  "mon_1105 = 19737 * 86400000 + 11 * 3600000 + 5 * 60000"

definition monday :: timestamp where
  \<comment> \<open>local midnight of that Monday\<close>
  "monday = 19737 * 86400000"

definition alice :: student where
  "alice = \<lparr>st_id = 1, st_rollNumber = ''CSE202100001'', st_name = ''Alice Johnson'',
     st_classId = 10, st_isActive = True\<rparr>"

definition bob :: student where
  "bob = \<lparr>st_id = 2, st_rollNumber = ''CSE202100002'', st_name = ''Bob Wilson'',
     st_classId = 10, st_isActive = True\<rparr>"

definition charlie :: student where
  "charlie = \<lparr>st_id = 3, st_rollNumber = ''CSE202100003'', st_name = ''Charlie Brown'',
     st_classId = 20, st_isActive = True\<rparr>"

definition store0 :: store where
  \<comment> \<open>three students, as in \<^verbatim>\<open>seedSampleData\<close>; teacher 7; classes 10 and 20\<close>
  "store0 = \<lparr>students = [alice, bob, charlie], sessions = [], attendances = [],
     requests = [], holidays = [], nextId = 100\<rparr>"

definition campusCentre :: location where
  "campusCentre = \<lparr>latitude = 13.0827, longitude = 80.2707\<rparr>"

definition manualRequest :: request where
  "manualRequest = \<lparr>rq_id = 50, rq_studentId = 1, rq_type = MANUAL_ATTENDANCE,
     rq_date = 19737 * 86400000, rq_period = Some 3, rq_reason = ''Phone battery died'',
     rq_status = PENDING, rq_reviewedBy = None, rq_reviewNote = None\<rparr>"

definition store1 :: store where
  "store1 = store0\<lparr>requests := [manualRequest]\<rparr>"

definition eventKey :: "attendance \<Rightarrow> objectId \<times> timestamp \<times> attType \<times> nat option" where
  \<comment> \<open>the key tuple (studentId, date, type, period) of the specification\<close>
  "eventKey a = (at_studentId a, at_date a, at_type a, at_period a)"

definition dayKey :: "attendance \<Rightarrow> objectId \<times> timestamp \<times> attType \<times> nat option" where
  \<comment> \<open>the same key with the date cut to its day\<close>
  "dayKey a = (at_studentId a, setHours0 (at_date a), at_type a, at_period a)"

definition sessionTimes :: "session \<Rightarrow> objectId \<times> timestamp \<times> timestamp" where
  "sessionTimes s = (se_id s, se_createdAt s, se_expiresAt s)"

definition fixedWindow :: "objectId \<times> timestamp \<times> timestamp \<Rightarrow> bool" where
  \<comment> \<open>on \<open>(id, createdAt, expiresAt)\<close>: the expiry is 15 minutes after the creation\<close>
  "fixedWindow t = (snd (snd t) = fst (snd t) + 15 * 60 * 1000)"

definition windowAtMost :: "objectId \<times> timestamp \<times> timestamp \<Rightarrow> bool" where
  \<comment> \<open>on \<open>(id, createdAt, expiresAt)\<close>: the expiry is at most 15 minutes after the creation\<close>
  "windowAtMost t = (snd (snd t) \<le> fst (snd t) + 15 * 60 * 1000)"

definition sessionsGrow ::
  "(objectId \<times> timestamp \<times> timestamp \<Rightarrow> bool) \<Rightarrow> store \<Rightarrow> store \<Rightarrow> bool" where
  \<comment> \<open>the sessions of the first store are all in the second, in place, with the times they
      had; the times of the sessions added after them satisfy \<open>W\<close>\<close>
  "sessionsGrow W st st' =
     (length (sessions st) \<le> length (sessions st')
      \<and> take (length (sessions st)) (map sessionTimes (sessions st'))
          = map sessionTimes (sessions st)
      \<and> list_all W (drop (length (sessions st)) (map sessionTimes (sessions st'))))"

fun startReadings :: "(timestamp \<Rightarrow> timestamp \<Rightarrow> bool) \<Rightarrow> operation \<Rightarrow> bool" where
  \<comment> \<open>a condition on the two clock readings of a session start; other operations pass\<close>
  "startReadings Q (StartSession now created token rcode teacherId classId period mode) =
     Q now created"
| "startReadings Q opn = True"

definition clockOrdered :: "operation \<Rightarrow> bool" where
  \<comment> \<open>the schema default is read no earlier than the handler's reading\<close>
  "clockOrdered opn = startReadings (\<lambda>now created. now \<le> created) opn"

definition sameReading :: "operation \<Rightarrow> bool" where
  \<comment> \<open>both readings of a session start fall in the same millisecond\<close>
  "sameReading opn = startReadings (\<lambda>now created. created = now) opn"

definition mon_0900_001 :: timestamp where
  \<comment> \<open>one millisecond after 09:00\<close>
  "mon_0900_001 = 19737 * 86400000 + 9 * 3600000 + 1"

definition oneSession :: store where
  \<comment> \<open>teacher 7 has opened a BLE session for class 10, period 3, at 09:00\<close>
  "oneSession = run store0 [StartSession mon_0900 mon_0900 ''aa'' ''C0DE01'' 7 10 3 BLE]"

definition classEvent ::
  "store \<Rightarrow> timestamp \<Rightarrow> session \<Rightarrow> objectId \<Rightarrow> string option \<Rightarrow> location option
     \<Rightarrow> attendance" where
  \<comment> \<open>the document a successful class mark stores\<close>
  "classEvent st now session studentId deviceId loc =
     \<lparr>at_id = nextId st, at_studentId = studentId, at_classId = se_classId session,
      at_date = now, at_type = CLASS, at_period = Some (se_period session),
      at_status = PRESENT, at_mode = Some (se_mode session), at_location = loc,
      at_deviceId = deviceId, at_markedBy = Some (se_teacherId session), at_reason = None,
      at_createdAt = now\<rparr>"

definition bleSession :: session where
  \<comment> \<open>the session of \<open>oneSession\<close>\<close>
  "bleSession = \<lparr>se_id = 100, se_classId = 10, se_teacherId = 7, se_date = mon_0900,
     se_period = 3, se_mode = BLE, se_token = ''aa'', se_code = None, se_ssid = None,
     se_isActive = True, se_expiresAt = mon_0900 + 15 * 60 * 1000, se_presentStudents = [],
     se_createdAt = mon_0900\<rparr>"

definition approvedThenSession :: store where
  \<comment> \<open>the manual request for Monday, period 3, is approved; then the session is opened\<close>
  "approvedThenSession =
     run store1 [Review mon_0900 7 50 APPROVED None,
                 StartSession mon_0900 mon_0900 ''aa'' ''C0DE01'' 7 10 3 BLE]"

definition inReport :: "objectId \<Rightarrow> timestamp \<Rightarrow> timestamp \<Rightarrow> attendance \<Rightarrow> bool" where
  \<comment> \<open>the filter \<^verbatim>\<open>{classId, date: {$gte: startDate, $lte: endDate}}\<close>: no condition on type\<close>
  "inReport classId startDate endDate a =
     (at_classId a = classId \<and> startDate \<le> at_date a \<and> at_date a \<le> endDate)"

definition studentRow ::
  "store \<Rightarrow> objectId \<Rightarrow> timestamp \<Rightarrow> timestamp \<Rightarrow> student \<Rightarrow> reportRow" where
  \<comment> \<open>the row of one student, in closed form\<close>
  "studentRow st classId startDate endDate s =
     (let evs = filter (\<lambda>a. inReport classId startDate endDate a \<and> at_studentId a = st_id s)
                  (attendances st);
          total = length evs;
          present = length (filter (\<lambda>a. at_status a = PRESENT) evs)
      in \<lparr>r_name = st_name s, r_rollNumber = st_rollNumber s, r_totalClasses = total,
          r_present = present, r_absent = total - present,
          r_percentage = (if total = 0 then 0
                          else mathRound (jsMul (jsDiv (of_nat present) (of_nat total)) 100))\<rparr>)"

definition campusOnly :: store where
  \<comment> \<open>student 1 has one CAMPUS event on Monday and no CLASS event\<close>
  "campusOnly = run store0 [Campus mon_1000 1 None campusCentre]"

definition classMark :: "objectId \<Rightarrow> int \<Rightarrow> nat \<Rightarrow> attStatus \<Rightarrow> attendance" where
  \<comment> \<open>a CLASS event of student 1 in class 10, \<open>day\<close> days after that Monday, at 09:00\<close>
  "classMark i day p status =
     \<lparr>at_id = i, at_studentId = 1, at_classId = 10, at_date = mon_0900 + day * 86400000,
      at_type = CLASS, at_period = Some p, at_status = status, at_mode = Some BLE,
      at_location = None, at_deviceId = None, at_markedBy = Some 7, at_reason = None,
      at_createdAt = mon_0900 + day * 86400000\<rparr>"

definition tenClasses :: store where
  \<comment> \<open>ten CLASS events of student 1 over two days, eight PRESENT and two ABSENT\<close>
  "tenClasses = store0\<lparr>attendances :=
     [classMark 200 0 1 PRESENT, classMark 201 0 2 PRESENT, classMark 202 0 3 PRESENT,
      classMark 203 0 4 ABSENT, classMark 204 0 5 PRESENT, classMark 205 1 1 PRESENT,
      classMark 206 1 2 PRESENT, classMark 207 1 3 ABSENT, classMark 208 1 4 PRESENT,
      classMark 209 1 5 PRESENT]\<rparr>"

definition counted :: "reportRow \<Rightarrow> attendance list \<Rightarrow> reportRow" where
  \<comment> \<open>a row after the loop body has run on each of the given records\<close>
  "counted row evs = foldl (\<lambda>r a. countRecord a r) row evs"

definition wednesday :: timestamp where
  \<comment> \<open>local midnight two days after that Monday\<close>
  "wednesday = 19739 * 86400000"

section \<open>Calendar resolution\<close>

lemma getDay_sat_0900: "getDay sat_0900 = 6"
  by (simp add: getDay_def sat_0900_def msPerDay_def)

lemma getDay_sun_0900: "getDay sun_0900 = 0"
  by (simp add: getDay_def sun_0900_def msPerDay_def)

lemma getDay_mon_0900: "getDay mon_0900 = 1"
  by (simp add: getDay_def mon_0900_def msPerDay_def)

lemma setHours0_sat_0900: "setHours0 sat_0900 = 19735 * 86400000"
  by (simp add: setHours0_def sat_0900_def msPerDay_def)

lemma setHours0_mon_0900: "setHours0 mon_0900 = 19737 * 86400000"
  by (simp add: setHours0_def mon_0900_def msPerDay_def)

text \<open>
  C7 (as stated, refuted). The claim gives a SPECIAL rule precedence over a SATURDAY_WORKING
  rule when their ranges overlap. \<^verbatim>\<open>isHoliday\<close> looks at one rule only, the first stored rule
  whose range contains the date: with a SATURDAY_WORKING rule stored before an overlapping
  SPECIAL rule, the Saturday is a working day and the SPECIAL rule is never read.
\<close>

theorem isHoliday_special_precedence_counterexample:
  "h_type fest = SPECIAL \<and> h_startDate fest \<le> setHours0 sat_0900
   \<and> setHours0 sat_0900 \<le> h_endDate fest \<and> getDay sat_0900 = 6
   \<and> hs_isHoliday (isHoliday [workingSat, fest] sat_0900) = False
   \<and> hs_isWorkingDay (isHoliday [workingSat, fest] sat_0900) = Some True
   \<and> hs_reason (isHoliday [workingSat, fest] sat_0900) \<noteq> Some (h_name fest)"
  by (simp add: isHoliday_def findHoliday_def getDay_sat_0900 setHours0_sat_0900
      workingSat_def fest_def)

text \<open>
  C7 (amended). For every date and every stored list of rules: a Sunday is a holiday with
  reason "Sunday" whatever the rules are. On any other day only the first stored rule whose
  range contains the local midnight of the date is consulted: if it is SPECIAL the day is a
  holiday with the rule's name as reason; if it is SATURDAY_WORKING and the day is a Saturday,
  the day is not a holiday, is a working day and carries the rule's mappedDay. With no such
  rule a Saturday is a holiday with reason "Saturday". A Monday to Friday is not a holiday
  when no rule contains it or when the first containing rule is SATURDAY_WORKING.
\<close>

theorem isHoliday_first_match:
  "(getDay d = 0 \<longrightarrow>
      hs_isHoliday (isHoliday hs d) \<and> hs_reason (isHoliday hs d) = Some ''Sunday'')
   \<and> (getDay d \<noteq> 0 \<and> findHoliday hs (setHours0 d) = Some h \<and> h_type h = SPECIAL \<longrightarrow>
      hs_isHoliday (isHoliday hs d) \<and> hs_reason (isHoliday hs d) = Some (h_name h))
   \<and> (getDay d = 6 \<and> findHoliday hs (setHours0 d) = Some h \<and> h_type h = SATURDAY_WORKING \<longrightarrow>
      \<not> hs_isHoliday (isHoliday hs d) \<and> hs_isWorkingDay (isHoliday hs d) = Some True
      \<and> hs_mappedDay (isHoliday hs d) = h_mappedDay h)
   \<and> (getDay d = 6 \<and> findHoliday hs (setHours0 d) = None \<longrightarrow>
      hs_isHoliday (isHoliday hs d) \<and> hs_reason (isHoliday hs d) = Some ''Saturday'')
   \<and> (getDay d \<noteq> 0 \<and> getDay d \<noteq> 6
      \<and> (findHoliday hs (setHours0 d) = None
          \<or> (findHoliday hs (setHours0 d) = Some h \<and> h_type h = SATURDAY_WORKING)) \<longrightarrow>
      \<not> hs_isHoliday (isHoliday hs d))"
  by (auto simp: isHoliday_def regularDay_def Let_def split: option.splits)

theorem isHoliday_first_match_witness:
  "hs_isHoliday (isHoliday [fest] sun_0900)
   \<and> hs_reason (isHoliday [fest] sun_0900) = Some ''Sunday''
   \<and> hs_isHoliday (isHoliday [fest, workingSat] sat_0900)
   \<and> hs_reason (isHoliday [fest, workingSat] sat_0900) = Some ''Fest''
   \<and> \<not> hs_isHoliday (isHoliday [workingSat] sat_0900)
   \<and> hs_isWorkingDay (isHoliday [workingSat] sat_0900) = Some True
   \<and> hs_mappedDay (isHoliday [workingSat] sat_0900) = Some ''monday''
   \<and> hs_isHoliday (isHoliday [] sat_0900)
   \<and> hs_reason (isHoliday [] sat_0900) = Some ''Saturday''
   \<and> \<not> hs_isHoliday (isHoliday [workingSat] mon_0900)"
proof -
  have f1: "findHoliday [fest, workingSat] (setHours0 sat_0900) = Some fest"
    by (simp add: findHoliday_def setHours0_sat_0900 fest_def)
  have f2: "findHoliday [workingSat] (setHours0 sat_0900) = Some workingSat"
    by (simp add: findHoliday_def setHours0_sat_0900 workingSat_def)
  have f3: "findHoliday [] (setHours0 sat_0900) = None"
    by (simp add: findHoliday_def)
  have f4: "findHoliday [workingSat] (setHours0 mon_0900) = None"
    by (simp add: findHoliday_def setHours0_mon_0900 workingSat_def)
  have t1: "h_type fest = SPECIAL" "h_name fest = ''Fest''"
    by (simp_all add: fest_def)
  have t2: "h_type workingSat = SATURDAY_WORKING" "h_mappedDay workingSat = Some ''monday''"
    by (simp_all add: workingSat_def)
  show ?thesis
    using isHoliday_first_match [of sun_0900 "[fest]" fest]
      isHoliday_first_match [of sat_0900 "[fest, workingSat]" fest]
      isHoliday_first_match [of sat_0900 "[workingSat]" workingSat]
      isHoliday_first_match [of sat_0900 "[]" fest]
      isHoliday_first_match [of mon_0900 "[workingSat]" fest]
    by (simp add: getDay_sun_0900 getDay_sat_0900 getDay_mon_0900 f1 f2 f3 f4 t1 t2)
qed

section \<open>Evaluation of the handlers on concrete inputs\<close>

lemmas instants = sat_0900_def sun_0900_def mon_0900_def mon_0901_def mon_0905_def mon_0906_def
  mon_0920_def mon_1000_def mon_1030_def mon_1100_def mon_1105_def monday_def

lemmas clock = setHours0_def getHours_def getDay_def msPerDay_def msPerHour_def

lemmas handlers = run_def startSession_def createSession_def Session_create_def catch500_def
  isHoliday_def findHoliday_def regularDay_def periodInRange_def sessionMode_def
  markRoute_def markAttendance_def duplicateMark_def Attendance_create_def findById_def
  campusRoute_def markCampusAttendance_def reviewRequest_def autoAbsent_def expireSessions_def
  validationFailed_def nullRead_def Let_def

lemmas people = store0_def alice_def bob_def charlie_def

lemma isWithinCampus_centre: "isWithinCampus (latitude campusCentre) (longitude campusCentre)"
  by (simp add: isWithinCampus_def calculateDistance_def campusCentre_def atan2_def)

text \<open>
  C6. The claim: every persisted Session and AttendanceEvent has a day-granular date, so that
  day-keyed lookups match records created earlier the same day. The code stores
  \<^verbatim>\<open>date: new Date()\<close>, the full timestamp, in \<^verbatim>\<open>createSession\<close>, \<^verbatim>\<open>markAttendance\<close>,
  \<^verbatim>\<open>markCampusAttendance\<close> and the 11:00 job, while every lookup asks for
  \<^verbatim>\<open>new Date().setHours(0, 0, 0, 0)\<close>. A session opened at 09:00, a class mark at 09:05, a campus
  mark at 10:00 and the absences written at 11:00 carry those instants as their dates, none of
  them the midnight of the day, and the status lookup of 10:30 does not find the campus mark
  of 10:00.
\<close>

theorem stored_dates_keep_time_of_day:
  "map se_date (sessions oneSession) = [mon_0900]
   \<and> map at_date (attendances (run oneSession [Mark mon_0905 1 None 100 ''aa'' None]))
       = [mon_0905]
   \<and> map at_date (attendances (run store0 [Campus mon_1000 1 None campusCentre])) = [mon_1000]
   \<and> map at_date (attendances (run store0 [AutoAbsent mon_1100]))
       = [mon_1100, mon_1100, mon_1100]
   \<and> setHours0 mon_0900 = monday \<and> setHours0 mon_0905 = monday
   \<and> setHours0 mon_1000 = monday \<and> setHours0 mon_1100 = monday
   \<and> mon_0900 \<noteq> monday \<and> mon_0905 \<noteq> monday \<and> mon_1000 \<noteq> monday \<and> mon_1100 \<noteq> monday
   \<and> find (\<lambda>a. at_studentId a = 1 \<and> at_date a = setHours0 mon_1030 \<and> at_type a = CAMPUS)
        (attendances (run store0 [Campus mon_1000 1 None campusCentre])) = None"
  using isWithinCampus_centre
  by (simp add: oneSession_def handlers people instants clock)

text \<open>
  C2. The claim: at most one active Session per (classId, date, period). The route looks for
  an active session whose date equals today's midnight; the session stored by an earlier call
  carries the instant of that call, so it is not found. Two starts for class 10, period 3,
  at 09:00 and 09:01 of the same Monday both succeed and leave two active sessions for that
  class, day and period. Two starts that read the same clock value leave two active sessions
  whose stored date fields are equal as well.
\<close>

theorem startSession_twice_two_active:
  "map (\<lambda>s. (se_classId s, setHours0 (se_date s), se_period s, se_isActive s))
     (sessions (run store0 [StartSession mon_0900 mon_0900 ''aa'' ''C0DE01'' 7 10 3 BLE,
                            StartSession mon_0901 mon_0901 ''bb'' ''C0DE02'' 7 10 3 BLE]))
     = [(10, monday, 3, True), (10, monday, 3, True)]
   \<and> map (\<lambda>s. (se_classId s, se_date s, se_period s, se_isActive s))
       (sessions (run store0 [StartSession mon_0900 mon_0900 ''aa'' ''C0DE01'' 7 10 3 BLE,
                              StartSession mon_0900 mon_0900 ''bb'' ''C0DE02'' 8 10 3 BLE]))
     = [(10, mon_0900, 3, True), (10, mon_0900, 3, True)]"
  by (simp add: handlers people instants clock)

text \<open>
  C1. The claim: no two AttendanceEvents share (studentId, date, type, period), every insert
  with an existing key being rejected or suppressed. The schema has no unique index and the
  approval route inserts without any lookup: approving the manual request of student 1 for
  Monday, period 3, twice stores two events with the same key tuple. The lookup of
  \<^verbatim>\<open>markAttendance\<close> asks for date = today's midnight while the stored date is the instant of
  the mark: student 1 marking the same session at 09:05 and again at 09:06 stores two CLASS
  events for the same student, day and period.
\<close>

theorem duplicate_event_keys:
  "map eventKey (attendances (run store1 [Review mon_1000 7 50 APPROVED None,
                                          Review mon_1030 7 50 APPROVED None]))
     = [(1, monday, CLASS, Some 3), (1, monday, CLASS, Some 3)]
   \<and> map dayKey (attendances (run oneSession [Mark mon_0905 1 None 100 ''aa'' None,
                                              Mark mon_0906 1 None 100 ''aa'' None]))
     = [(1, monday, CLASS, Some 3), (1, monday, CLASS, Some 3)]"
  by (simp add: oneSession_def handlers people store1_def manualRequest_def instants clock
      eventKey_def dayKey_def)

text \<open>
  C4. The claim: when a CAMPUS event exists for (studentId, today), \<^verbatim>\<open>markCampusAttendance\<close>
  returns it and inserts nothing. The lookup asks for date = today's midnight, the event
  stored at 10:00 has date 10:00: the call of 10:30 does not find it, returns a new record
  (id 101, not 100) and leaves two PRESENT CAMPUS events for student 1 on that Monday.
\<close>

theorem campus_twice_two_events:
  "map (\<lambda>a. (at_id a, dayKey a, at_status a))
     (attendances (run store0 [Campus mon_1000 1 None campusCentre,
                               Campus mon_1030 1 None campusCentre]))
     = [(100, (1, monday, CAMPUS, None), PRESENT), (101, (1, monday, CAMPUS, None), PRESENT)]
   \<and> map_sum id at_id
       (fst (campusRoute (run store0 [Campus mon_1000 1 None campusCentre])
               mon_1030 1 None campusCentre)) = Inr 101"
  using isWithinCampus_centre
  by (simp add: handlers people instants clock dayKey_def)

text \<open>
  C5. The claim: two runs of the daily absence sweep for the same non-holiday day with n
  unmarked students leave n ABSENT CAMPUS events. The sweep looks for a CAMPUS event with
  date = today's midnight and stores its own events with the instant of the run: the second
  run finds none of them. With three unmarked students, runs at 11:00 and 11:05 of the same
  Monday leave six ABSENT CAMPUS events, two for each student.
\<close>

theorem autoAbsent_twice_doubles:
  "map (\<lambda>a. (dayKey a, at_status a))
     (attendances (run store0 [AutoAbsent mon_1100, AutoAbsent mon_1105]))
     = [((1, monday, CAMPUS, None), ABSENT), ((2, monday, CAMPUS, None), ABSENT),
        ((3, monday, CAMPUS, None), ABSENT), ((1, monday, CAMPUS, None), ABSENT),
        ((2, monday, CAMPUS, None), ABSENT), ((3, monday, CAMPUS, None), ABSENT)]
   \<and> \<not> hs_isHoliday (isHoliday (holidays store0) mon_1100)"
  by (simp add: handlers people instants clock dayKey_def)

section \<open>The session window\<close>

lemma sessionsGrow_iff:
  "sessionsGrow W st st' \<longleftrightarrow>
     (\<exists>xs. map sessionTimes (sessions st') = map sessionTimes (sessions st) @ xs
           \<and> list_all W xs)"
proof
  assume g: "sessionsGrow W st st'"
  let ?n = "length (sessions st)"
  let ?C = "map sessionTimes (sessions st')"
  have "?C = take ?n ?C @ drop ?n ?C" by simp
  with g have "?C = map sessionTimes (sessions st) @ drop ?n ?C"
    by (simp add: sessionsGrow_def)
  moreover from g have "list_all W (drop ?n ?C)"
    by (simp add: sessionsGrow_def)
  ultimately show "\<exists>xs. ?C = map sessionTimes (sessions st) @ xs \<and> list_all W xs"
    by blast
next
  assume "\<exists>xs. map sessionTimes (sessions st') = map sessionTimes (sessions st) @ xs
           \<and> list_all W xs"
  then obtain xs where e: "map sessionTimes (sessions st') = map sessionTimes (sessions st) @ xs"
    and w: "list_all W xs" by blast
  from e have "length (map sessionTimes (sessions st'))
      = length (map sessionTimes (sessions st) @ xs)" by (rule arg_cong)
  then have len: "length (sessions st') = length (sessions st) + length xs" by simp
  show "sessionsGrow W st st'"
    unfolding sessionsGrow_def using len w by (simp add: e)
qed

lemma sessionsGrow_refl: "sessionsGrow W st st"
  by (simp add: sessionsGrow_iff)

lemma sessionsGrow_same: "sessions st' = sessions st \<Longrightarrow> sessionsGrow W st st'"
  by (simp add: sessionsGrow_iff)

lemma sessionsGrow_map:
  assumes "sessions st' = map f (sessions st)" and "\<And>s. sessionTimes (f s) = sessionTimes s"
  shows "sessionsGrow W st st'"
  using assms by (simp add: sessionsGrow_iff comp_def)

lemma sessionsGrow_snoc:
  assumes "sessions st' = sessions st @ [s]" and "W (sessionTimes s)"
  shows "sessionsGrow W st st'"
  using assms by (simp add: sessionsGrow_iff)

lemma sessionsGrow_trans:
  assumes "sessionsGrow W a b" and "sessionsGrow W b c"
  shows "sessionsGrow W a c"
proof -
  from assms(1) obtain xs where B: "map sessionTimes (sessions b) = map sessionTimes (sessions a) @ xs"
    and xs: "list_all W xs"
    unfolding sessionsGrow_iff by blast
  from assms(2) obtain ys where C: "map sessionTimes (sessions c) = map sessionTimes (sessions b) @ ys"
    and ys: "list_all W ys"
    unfolding sessionsGrow_iff by blast
  have "map sessionTimes (sessions c) = map sessionTimes (sessions a) @ (xs @ ys)"
    using B C by simp
  moreover have "list_all W (xs @ ys)" using xs ys by simp
  ultimately show ?thesis unfolding sessionsGrow_iff by blast
qed

lemma Attendance_create_sessions: "sessions (snd (Attendance_create st doc)) = sessions st"
  by (simp add: Attendance_create_def Let_def)

lemma markAbsent_sessions: "sessions (snd (markAbsent st now studs)) = sessions st"
proof (induction studs arbitrary: st)
  case Nil
  then show ?case by simp
next
  case (Cons student rest)
  show ?case
  proof (cases "find (\<lambda>a. at_studentId a = st_id student \<and> at_date a = setHours0 now
                     \<and> at_type a = CAMPUS) (attendances st)")
    case None
    let ?doc = "\<lparr>at_id = 0, at_studentId = st_id student, at_classId = st_classId student,
                   at_date = now, at_type = CAMPUS, at_period = None, at_status = ABSENT,
                   at_mode = None, at_location = None, at_deviceId = None,
                   at_markedBy = None, at_reason = None, at_createdAt = now\<rparr>"
    obtain r st' where c: "Attendance_create st ?doc = (r, st')" by (cases "Attendance_create st ?doc")
    then have s: "sessions st' = sessions st"
      using Attendance_create_sessions [of st ?doc] by simp
    show ?thesis using None c s Cons.IH [of st'] by (cases r) simp_all
  next
    case (Some a)
    then show ?thesis using Cons.IH [of st] by simp
  qed
qed

lemma startSession_sessions:
  "sessions (snd (startSession st now created token rcode teacherId classId period mode))
     = sessions st
   \<or> (\<exists>s. sessions (snd (startSession st now created token rcode teacherId classId period mode))
            = sessions st @ [s]
          \<and> sessionTimes s = (nextId st, created, now + 15 * 60 * 1000))"
  by (simp add: startSession_def createSession_def Session_create_def catch500_def Let_def
      sessionTimes_def split: option.splits)

lemma startSession_grow:
  assumes "\<And>i. W (i, created, now + 15 * 60 * 1000)"
  shows "sessionsGrow W st
           (snd (startSession st now created token rcode teacherId classId period mode))"
proof -
  let ?st' = "snd (startSession st now created token rcode teacherId classId period mode)"
  from startSession_sessions [of st now created token rcode teacherId classId period mode]
  consider "sessions ?st' = sessions st"
    | s where "sessions ?st' = sessions st @ [s]"
        and "sessionTimes s = (nextId st, created, now + 15 * 60 * 1000)"
    by blast
  then show ?thesis
  proof cases
    case 1
    then show ?thesis by (rule sessionsGrow_same)
  next
    case 2
    from 2(2) assms have "W (sessionTimes s)" by simp
    with 2(1) show ?thesis by (rule sessionsGrow_snoc)
  qed
qed

lemma startSession_created:
  assumes "startSession st now created token rcode teacherId classId period mode = (Inr s, st')"
  shows "se_expiresAt s = now + 15 * 60 * 1000 \<and> se_createdAt s = created
         \<and> sessions st' = sessions st @ [s]"
  using assms
  by (auto simp: startSession_def createSession_def Session_create_def catch500_def Let_def
      split: option.splits if_splits)

lemma markAttendance_sessions:
  "sessions (snd (markAttendance st now sessionId studentId deviceId loc)) = sessions st
   \<or> sessions (snd (markAttendance st now sessionId studentId deviceId loc))
       = map (\<lambda>s. if se_id s = sessionId
                   then s\<lparr>se_presentStudents := se_presentStudents s @ [studentId]\<rparr>
                   else s) (sessions st)"
  by (simp add: markAttendance_def Attendance_create_def Let_def split: option.splits)

lemma markAttendance_grow:
  "sessionsGrow W st (snd (markAttendance st now sessionId studentId deviceId loc))"
proof -
  let ?f = "\<lambda>s. if se_id s = sessionId
                   then s\<lparr>se_presentStudents := se_presentStudents s @ [studentId]\<rparr>
                   else s"
  have "\<And>s. sessionTimes (?f s) = sessionTimes s"
    by (simp add: sessionTimes_def)
  then show ?thesis
    using markAttendance_sessions [of st now sessionId studentId deviceId loc]
      sessionsGrow_map [of _ ?f st W] sessionsGrow_same [of _ st W]
    by blast
qed

lemma markRoute_grow:
  "sessionsGrow W st (snd (markRoute st now userId deviceId sessionId token loc))"
  by (simp add: markRoute_def catch500_def sessionsGrow_refl markAttendance_grow
      split: option.splits sum.splits)

lemma campusRoute_grow: "sessionsGrow W st (snd (campusRoute st now userId deviceId loc))"
  by (auto simp: campusRoute_def markCampusAttendance_def Attendance_create_def catch500_def
      Let_def sessionsGrow_refl intro!: sessionsGrow_same split: option.splits)

lemma reviewRequest_grow:
  "sessionsGrow W st (snd (reviewRequest st now teacherId requestId status reviewNote))"
  by (auto simp: reviewRequest_def Attendance_create_def catch500_def
      Let_def sessionsGrow_refl intro!: sessionsGrow_same split: option.splits)

lemma step_grow:
  assumes "\<And>now created i. Q now created \<Longrightarrow> W (i, created, now + 15 * 60 * 1000)"
    and "startReadings Q opn"
  shows "sessionsGrow W st (step st opn)"
proof (cases opn)
  case (StartSession now created token rcode teacherId classId period mode)
  with assms(2) have "Q now created" by simp
  then have "\<And>i. W (i, created, now + 15 * 60 * 1000)" by (rule assms(1))
  then have "sessionsGrow W st
      (snd (startSession st now created token rcode teacherId classId period mode))"
    by (rule startSession_grow)
  with StartSession show ?thesis by simp
next
  case (Mark now userId deviceId sessionId token loc)
  then show ?thesis by (simp add: markRoute_grow)
next
  case (Campus now userId deviceId loc)
  then show ?thesis by (simp add: campusRoute_grow)
next
  case (Review now teacherId requestId status reviewNote)
  then show ?thesis by (simp add: reviewRequest_grow)
next
  case (AbsenceReason userId date reason)
  then show ?thesis by (simp add: submitAbsenceReason_def sessionsGrow_same)
next
  case (AutoAbsent now)
  then show ?thesis by (simp add: autoAbsent_def sessionsGrow_same markAbsent_sessions)
next
  case (ExpireSessions now)
  have "sessionsGrow W st (expireSessions st now)"
    by (rule sessionsGrow_map [where f = "\<lambda>s. if se_isActive s \<and> se_expiresAt s < now
                              then s\<lparr>se_isActive := False\<rparr> else s"])
      (simp_all add: expireSessions_def sessionTimes_def)
  with ExpireSessions show ?thesis by simp
qed

lemma run_grow:
  assumes "\<And>now created i. Q now created \<Longrightarrow> W (i, created, now + 15 * 60 * 1000)"
    and "list_all (startReadings Q) ops"
  shows "sessionsGrow W st (run st ops)"
  using assms(2)
proof (induction ops arbitrary: st)
  case Nil
  then show ?case by (simp add: run_def sessionsGrow_same)
next
  case (Cons opn ops)
  from Cons.prems have o: "startReadings Q opn" and r: "list_all (startReadings Q) ops"
    by simp_all
  have "sessionsGrow W st (step st opn)" using assms(1) o by (rule step_grow)
  moreover have "sessionsGrow W (step st opn) (run (step st opn) ops)" using r by (rule Cons.IH)
  ultimately have "sessionsGrow W st (run (step st opn) ops)" by (rule sessionsGrow_trans)
  then show ?case by (simp add: run_def)
qed

lemma startReadings_any: "startReadings (\<lambda>now created. True) opn"
  by (cases opn) simp_all

lemma run_keeps_sessions:
  "take (length (sessions st)) (map sessionTimes (sessions (run st ops)))
     = map sessionTimes (sessions st)"
proof -
  have "list_all (startReadings (\<lambda>now created. True)) ops"
    by (simp add: list_all_iff startReadings_any)
  then have "sessionsGrow (\<lambda>t. True) st (run st ops)"
    by (intro run_grow [where Q = "\<lambda>now created. True"]) simp_all
  then show ?thesis by (simp add: sessionsGrow_def)
qed

lemma run_new_sessions:
  assumes "\<And>now created i. Q now created \<Longrightarrow> W (i, created, now + 15 * 60 * 1000)"
    and "list_all (startReadings Q) ops"
  shows "\<forall>s \<in> set (drop (length (sessions st)) (sessions (run st ops))). W (sessionTimes s)"
proof -
  have "sessionsGrow W st (run st ops)" using assms by (rule run_grow)
  then have "list_all W (map sessionTimes (drop (length (sessions st)) (sessions (run st ops))))"
    by (simp add: sessionsGrow_def drop_map)
  then show ?thesis by (simp add: list_all_iff)
qed

text \<open>
  C9 (as stated, refuted). The claim: expiresAt equals createdAt plus exactly 15 minutes.
  \<^verbatim>\<open>createSession\<close> computes expiresAt from its own \<^verbatim>\<open>Date.now()\<close>, and createdAt is the
  schema default, a reading of the clock made afterwards. When the millisecond changes
  between the two readings (09:00:00.000 and 09:00:00.001 here), the stored expiresAt is
  createdAt plus 899999 ms.
\<close>

theorem session_window_two_readings_counterexample:
  "map (\<lambda>s. (se_createdAt s, se_expiresAt s))
     (sessions (run store0 [StartSession mon_0900 mon_0900_001 ''aa'' ''C0DE01'' 7 10 3 BLE]))
     = [(mon_0900_001, mon_0900 + 15 * 60 * 1000)]
   \<and> mon_0900 + 15 * 60 * 1000 \<noteq> mon_0900_001 + 15 * 60 * 1000
   \<and> mon_0900 + 15 * 60 * 1000 - mon_0900_001 = 899999"
  by (simp add: handlers people instants clock mon_0900_001_def)

text \<open>
  C9 (amended). For every session created by createSession, expiresAt equals the clock
  reading of the createSession call plus exactly 15 minutes, and createdAt is the separate
  reading of the schema default. Along every run of operations from any store (session
  starts, class and campus marks, approvals, absence reasons, the absence sweep and the
  expiry sweep), every session that was in the store before the run is still there, at its
  place, with the id, createdAt and expiresAt it had. When the default is read no earlier
  than the call's reading, every session created during the run has
  expiresAt \<le> createdAt + 15 minutes, and expiresAt = createdAt + 15 minutes when the two
  readings of each start coincide.
\<close>

theorem session_expiry_fixed_at_creation:
  "(startSession st now created token rcode teacherId classId period mode = (Inr s, st') \<longrightarrow>
      se_expiresAt s = now + 15 * 60 * 1000 \<and> se_createdAt s = created
      \<and> sessions st' = sessions st @ [s])
   \<and> take (length (sessions st)) (map sessionTimes (sessions (run st ops)))
       = map sessionTimes (sessions st)
   \<and> (list_all clockOrdered ops \<longrightarrow>
        (\<forall>x \<in> set (drop (length (sessions st)) (sessions (run st ops))).
           se_expiresAt x \<le> se_createdAt x + 15 * 60 * 1000))
   \<and> (list_all sameReading ops \<longrightarrow>
        (\<forall>x \<in> set (drop (length (sessions st)) (sessions (run st ops))).
           se_expiresAt x = se_createdAt x + 15 * 60 * 1000))"
proof (intro conjI impI)
  assume "startSession st now created token rcode teacherId classId period mode = (Inr s, st')"
  then have c: "se_expiresAt s = now + 15 * 60 * 1000 \<and> se_createdAt s = created
         \<and> sessions st' = sessions st @ [s]"
    by (rule startSession_created)
  from c show "se_expiresAt s = now + 15 * 60 * 1000" by simp
  from c show "se_createdAt s = created" by simp
  from c show "sessions st' = sessions st @ [s]" by simp
next
  show "take (length (sessions st)) (map sessionTimes (sessions (run st ops)))
       = map sessionTimes (sessions st)"
    by (rule run_keeps_sessions)
next
  assume "list_all clockOrdered ops"
  then have o: "list_all (startReadings (\<lambda>now created. now \<le> created)) ops"
    by (simp add: list_all_iff clockOrdered_def)
  have "\<forall>x \<in> set (drop (length (sessions st)) (sessions (run st ops))).
      windowAtMost (sessionTimes x)"
    by (rule run_new_sessions [OF _ o]) (simp add: windowAtMost_def)
  then show "\<forall>x \<in> set (drop (length (sessions st)) (sessions (run st ops))).
           se_expiresAt x \<le> se_createdAt x + 15 * 60 * 1000"
    by (simp add: windowAtMost_def sessionTimes_def)
next
  assume "list_all sameReading ops"
  then have o: "list_all (startReadings (\<lambda>now created. created = now)) ops"
    by (simp add: list_all_iff sameReading_def)
  have "\<forall>x \<in> set (drop (length (sessions st)) (sessions (run st ops))).
      fixedWindow (sessionTimes x)"
    by (rule run_new_sessions [OF _ o]) (simp add: fixedWindow_def)
  then show "\<forall>x \<in> set (drop (length (sessions st)) (sessions (run st ops))).
           se_expiresAt x = se_createdAt x + 15 * 60 * 1000"
    by (simp add: fixedWindow_def sessionTimes_def)
qed

theorem session_expiry_fixed_at_creation_witness:
  "startSession store0 mon_0900 mon_0900_001 ''aa'' ''C0DE01'' 7 10 3 BLE
     = (Inr (bleSession\<lparr>se_createdAt := mon_0900_001\<rparr>),
        store0\<lparr>sessions := [bleSession\<lparr>se_createdAt := mon_0900_001\<rparr>], nextId := 101\<rparr>)
   \<and> se_expiresAt (bleSession\<lparr>se_createdAt := mon_0900_001\<rparr>) = mon_0900 + 15 * 60 * 1000
   \<and> map (\<lambda>s. (sessionTimes s, se_isActive s, se_presentStudents s))
        (sessions (run oneSession [Mark mon_0905 1 None 100 ''aa'' None,
                                   ExpireSessions mon_0920]))
       = [((100, mon_0900, mon_0900 + 15 * 60 * 1000), False, [1])]
   \<and> take (length (sessions oneSession))
        (map sessionTimes (sessions (run oneSession [Mark mon_0905 1 None 100 ''aa'' None,
                                                     ExpireSessions mon_0920])))
       = map sessionTimes (sessions oneSession)
   \<and> list_all clockOrdered [StartSession mon_0900 mon_0900_001 ''aa'' ''C0DE01'' 7 10 3 BLE,
                            Mark mon_0905 1 None 100 ''aa'' None, ExpireSessions mon_0920]
   \<and> list_all (\<lambda>x. se_expiresAt x \<le> se_createdAt x + 15 * 60 * 1000)
        (sessions (run store0 [StartSession mon_0900 mon_0900_001 ''aa'' ''C0DE01'' 7 10 3 BLE,
                               Mark mon_0905 1 None 100 ''aa'' None, ExpireSessions mon_0920]))
   \<and> list_all sameReading [StartSession mon_0900 mon_0900 ''aa'' ''C0DE01'' 7 10 3 BLE,
                           Mark mon_0905 1 None 100 ''aa'' None, ExpireSessions mon_0920]
   \<and> list_all (\<lambda>x. se_expiresAt x = se_createdAt x + 15 * 60 * 1000)
        (sessions (run store0 [StartSession mon_0900 mon_0900 ''aa'' ''C0DE01'' 7 10 3 BLE,
                               Mark mon_0905 1 None 100 ''aa'' None, ExpireSessions mon_0920]))"
proof -
  let ?late = "bleSession\<lparr>se_createdAt := mon_0900_001\<rparr>"
  let ?lateStore = "store0\<lparr>sessions := [?late], nextId := 101\<rparr>"
  let ?marks = "[Mark mon_0905 1 None 100 ''aa'' None, ExpireSessions mon_0920]"
  let ?opsLate = "StartSession mon_0900 mon_0900_001 ''aa'' ''C0DE01'' 7 10 3 BLE # ?marks"
  let ?opsSame = "StartSession mon_0900 mon_0900 ''aa'' ''C0DE01'' 7 10 3 BLE # ?marks"
  have e: "sessions store0 = []" by (simp add: store0_def)
  have a: "startSession store0 mon_0900 mon_0900_001 ''aa'' ''C0DE01'' 7 10 3 BLE
      = (Inr ?late, ?lateStore)"
    by (simp add: bleSession_def handlers people instants clock mon_0900_001_def)
  have a': "se_expiresAt ?late = mon_0900 + 15 * 60 * 1000"
    using a session_expiry_fixed_at_creation [of store0 mon_0900 mon_0900_001 "''aa''"
        "''C0DE01''" 7 10 3 BLE ?late ?lateStore "[]"]
    by blast
  have b: "map (\<lambda>s. (sessionTimes s, se_isActive s, se_presentStudents s))
        (sessions (run oneSession ?marks))
       = [((100, mon_0900, mon_0900 + 15 * 60 * 1000), False, [1])]"
    by (simp add: oneSession_def handlers people instants clock sessionTimes_def)
  have k: "take (length (sessions oneSession)) (map sessionTimes (sessions (run oneSession ?marks)))
       = map sessionTimes (sessions oneSession)"
    using session_expiry_fixed_at_creation [of oneSession mon_0900 mon_0900 "''aa''"
        "''C0DE01''" 7 10 3 BLE ?late ?lateStore ?marks]
    by blast
  have o: "list_all clockOrdered ?opsLate"
    by (simp add: clockOrdered_def instants mon_0900_001_def)
  have w: "list_all (\<lambda>x. se_expiresAt x \<le> se_createdAt x + 15 * 60 * 1000)
      (sessions (run store0 ?opsLate))"
    using o e session_expiry_fixed_at_creation [of store0 mon_0900 mon_0900_001 "''aa''"
        "''C0DE01''" 7 10 3 BLE ?late ?lateStore ?opsLate]
    by (simp only: list_all_iff drop0 list.size) blast
  have o2: "list_all sameReading ?opsSame"
    by (simp add: sameReading_def)
  have w2: "list_all (\<lambda>x. se_expiresAt x = se_createdAt x + 15 * 60 * 1000)
      (sessions (run store0 ?opsSame))"
    using o2 e session_expiry_fixed_at_creation [of store0 mon_0900 mon_0900_001 "''aa''"
        "''C0DE01''" 7 10 3 BLE ?late ?lateStore ?opsSame]
    by (simp only: list_all_iff drop0 list.size) blast
  from a a' b k o w o2 w2 show ?thesis by blast
qed

section \<open>Class marking\<close>

lemma markAttendance_inserts:
  assumes "findById se_id (sessions st) sessionId = Some s"
    and "se_isActive s" and "now \<le> se_expiresAt s"
    and "duplicateMark st now s studentId = None"
    and "periodInRange (se_period s)"
  shows "markAttendance st now sessionId studentId deviceId loc =
     (Inr (classEvent st now s studentId deviceId loc),
      st\<lparr>attendances := attendances st @ [classEvent st now s studentId deviceId loc],
         nextId := Suc (nextId st),
         sessions := map (\<lambda>x. if se_id x = sessionId
                               then x\<lparr>se_presentStudents := se_presentStudents x @ [studentId]\<rparr>
                               else x) (sessions st)\<rparr>)"
  using assms
  by (simp add: markAttendance_def Attendance_create_def classEvent_def Let_def)

lemma markRoute_inserts:
  assumes "findById se_id (sessions st) sessionId = Some s"
    and "se_token s = token" and "token \<noteq> []"
    and "se_isActive s" and "now \<le> se_expiresAt s"
    and "duplicateMark st now s userId = None"
    and "periodInRange (se_period s)"
  shows "markRoute st now userId deviceId sessionId token loc =
     (Inr (classEvent st now s userId deviceId loc),
      st\<lparr>attendances := attendances st @ [classEvent st now s userId deviceId loc],
         nextId := Suc (nextId st),
         sessions := map (\<lambda>x. if se_id x = sessionId
                               then x\<lparr>se_presentStudents := se_presentStudents x @ [userId]\<rparr>
                               else x) (sessions st)\<rparr>)"
  using assms
    markAttendance_inserts [OF assms(1) assms(4) assms(5) assms(6) assms(7), of deviceId loc]
  by (simp add: markRoute_def catch500_def)

lemma markRoute_students:
  "fst (markRoute (st\<lparr>students := studs\<rparr>) now userId deviceId sessionId token loc)
     = fst (markRoute st now userId deviceId sessionId token loc)"
  by (simp add: markRoute_def markAttendance_def duplicateMark_def Attendance_create_def
      catch500_def Let_def split: option.splits)

lemma oneSession_eq:
  "oneSession = store0\<lparr>sessions := [bleSession], nextId := 101\<rparr>"
  by (simp add: oneSession_def bleSession_def handlers people instants clock)

lemma findById_oneSession: "findById se_id (sessions oneSession) 100 = Some bleSession"
  by (simp add: oneSession_eq findById_def bleSession_def)

text \<open>
  C10. Class marking never asks whether the student belongs to the session's class. For every
  store, user and session: when the session is found, the supplied token is the session's
  (and not empty, as the route's validator demands), the session is active and not past its
  expiry, its period is in the schema's range and the duplicate lookup finds nothing, the mark
  succeeds, the stored event carries the user's id and the session's classId, and the outcome
  is the same whatever the students collection holds, the user's own class included.
\<close>

theorem mark_ignores_class_membership:
  "findById se_id (sessions st) sessionId = Some s \<and> se_token s = token \<and> token \<noteq> []
   \<and> se_isActive s \<and> now \<le> se_expiresAt s \<and> periodInRange (se_period s)
   \<and> duplicateMark st now s userId = None
   \<longrightarrow> (\<exists>a st'. markRoute st now userId deviceId sessionId token loc = (Inr a, st')
          \<and> at_studentId a = userId \<and> at_classId a = se_classId s
          \<and> at_type a = CLASS \<and> at_status a = PRESENT
          \<and> attendances st' = attendances st @ [a]
          \<and> (\<forall>studs. fst (markRoute (st\<lparr>students := studs\<rparr>) now userId deviceId sessionId
                             token loc) = Inr a))"
proof
  assume h: "findById se_id (sessions st) sessionId = Some s \<and> se_token s = token \<and> token \<noteq> []
   \<and> se_isActive s \<and> now \<le> se_expiresAt s \<and> periodInRange (se_period s)
   \<and> duplicateMark st now s userId = None"
  let ?a = "classEvent st now s userId deviceId loc"
  from h have r: "markRoute st now userId deviceId sessionId token loc =
     (Inr ?a,
      st\<lparr>attendances := attendances st @ [?a],
         nextId := Suc (nextId st),
         sessions := map (\<lambda>x. if se_id x = sessionId
                               then x\<lparr>se_presentStudents := se_presentStudents x @ [userId]\<rparr>
                               else x) (sessions st)\<rparr>)"
    by (intro markRoute_inserts) simp_all
  have "\<forall>studs. fst (markRoute (st\<lparr>students := studs\<rparr>) now userId deviceId sessionId
                             token loc) = Inr ?a"
    using r by (simp add: markRoute_students)
  with r show "\<exists>a st'. markRoute st now userId deviceId sessionId token loc = (Inr a, st')
          \<and> at_studentId a = userId \<and> at_classId a = se_classId s
          \<and> at_type a = CLASS \<and> at_status a = PRESENT
          \<and> attendances st' = attendances st @ [a]
          \<and> (\<forall>studs. fst (markRoute (st\<lparr>students := studs\<rparr>) now userId deviceId sessionId
                             token loc) = Inr a)"
    by (simp add: classEvent_def)
qed

theorem mark_ignores_class_membership_witness:
  "findById st_id (students oneSession) 3 = Some charlie \<and> st_classId charlie = 20
   \<and> se_classId bleSession = 10
   \<and> (\<exists>a st'. markRoute oneSession mon_0905 3 None 100 ''aa'' None = (Inr a, st')
          \<and> at_studentId a = 3 \<and> at_classId a = 10
          \<and> at_type a = CLASS \<and> at_status a = PRESENT
          \<and> attendances st' = attendances oneSession @ [a]
          \<and> (\<forall>studs. fst (markRoute (oneSession\<lparr>students := studs\<rparr>) mon_0905 3 None 100
                             ''aa'' None) = Inr a))"
proof -
  have s: "findById st_id (students oneSession) 3 = Some charlie" "st_classId charlie = 20"
    by (simp_all add: oneSession_eq findById_def people)
  have h: "se_token bleSession = ''aa''" "se_isActive bleSession"
    "mon_0905 \<le> se_expiresAt bleSession" "periodInRange (se_period bleSession)"
    "se_classId bleSession = 10"
    by (simp_all add: bleSession_def instants periodInRange_def)
  have d: "duplicateMark oneSession mon_0905 bleSession 3 = None"
    by (simp add: duplicateMark_def oneSession_eq store0_def)
  show ?thesis
    using s h d findById_oneSession
      mark_ignores_class_membership [of oneSession 100 bleSession "''aa''" mon_0905 3 None None]
    by simp
qed

text \<open>
  C3 (as stated, refuted). The claim puts the expiry check before the token check and gives
  a missing session and a wrong token two distinct errors. The route compares the token
  first, and answers a missing session and a wrong token alike: on the session opened at
  09:00 (expiry 09:15), a mark at 09:20 with the wrong token is answered
  "Invalid session or token", where the right token is answered "Invalid or expired session";
  an unknown session id and a wrong token at 09:05 get the same answer.
\<close>

theorem markRoute_token_before_expiry_counterexample:
  "findById se_id (sessions oneSession) 100 = Some bleSession
   \<and> se_isActive bleSession \<and> se_expiresAt bleSession < mon_0920
   \<and> se_token bleSession \<noteq> ''zz''
   \<and> fst (markRoute oneSession mon_0920 1 None 100 ''zz'' None)
       = Inl (HttpError 400 ''Invalid session or token'')
   \<and> fst (markRoute oneSession mon_0920 1 None 100 ''aa'' None)
       = Inl (HttpError 500 ''Invalid or expired session'')
   \<and> findById se_id (sessions oneSession) 999 = None
   \<and> fst (markRoute oneSession mon_0905 1 None 999 ''aa'' None)
       = Inl (HttpError 400 ''Invalid session or token'')
   \<and> fst (markRoute oneSession mon_0905 1 None 100 ''zz'' None)
       = Inl (HttpError 400 ''Invalid session or token'')"
  by (simp add: oneSession_eq bleSession_def store0_def instants findById_def markRoute_def
      markAttendance_def catch500_def)

text \<open>
  C3 (amended). With a non-empty token, the class mark validates in this order. A missing
  session and a token unequal to the session's token are answered alike, 400
  "Invalid session or token", whatever the state of the session. Then a session that is
  inactive or has expiresAt < now is answered "Invalid or expired session". Then an event
  found by the duplicate lookup (same student, the session's class and period,
  date = today's local midnight) is answered "Attendance already marked". None of these
  writes to the store. Only when all the checks pass (and the session's period is in the
  schema's range) is one PRESENT CLASS event inserted.
\<close>

theorem markRoute_validation_order:
  "token \<noteq> [] \<longrightarrow>
     (findById se_id (sessions st) sessionId = None \<longrightarrow>
        markRoute st now userId deviceId sessionId token loc
          = (Inl (HttpError 400 ''Invalid session or token''), st))
   \<and> (findById se_id (sessions st) sessionId = Some s \<and> se_token s \<noteq> token \<longrightarrow>
        markRoute st now userId deviceId sessionId token loc
          = (Inl (HttpError 400 ''Invalid session or token''), st))
   \<and> (findById se_id (sessions st) sessionId = Some s \<and> se_token s = token
        \<and> (\<not> se_isActive s \<or> se_expiresAt s < now) \<longrightarrow>
        markRoute st now userId deviceId sessionId token loc
          = (Inl (HttpError 500 ''Invalid or expired session''), st))
   \<and> (findById se_id (sessions st) sessionId = Some s \<and> se_token s = token
        \<and> se_isActive s \<and> now \<le> se_expiresAt s
        \<and> duplicateMark st now s userId \<noteq> None \<longrightarrow>
        markRoute st now userId deviceId sessionId token loc
          = (Inl (HttpError 500 ''Attendance already marked''), st))
   \<and> (findById se_id (sessions st) sessionId = Some s \<and> se_token s = token
        \<and> se_isActive s \<and> now \<le> se_expiresAt s
        \<and> duplicateMark st now s userId = None \<and> periodInRange (se_period s) \<longrightarrow>
        (\<exists>a st'. markRoute st now userId deviceId sessionId token loc = (Inr a, st')
           \<and> at_studentId a = userId \<and> at_type a = CLASS \<and> at_status a = PRESENT
           \<and> at_period a = Some (se_period s)
           \<and> attendances st' = attendances st @ [a]))"
proof (intro impI conjI)
  assume "token \<noteq> []" and "findById se_id (sessions st) sessionId = None"
  then show "markRoute st now userId deviceId sessionId token loc
          = (Inl (HttpError 400 ''Invalid session or token''), st)"
    by (simp add: markRoute_def)
next
  assume "token \<noteq> []"
    and "findById se_id (sessions st) sessionId = Some s \<and> se_token s \<noteq> token"
  then show "markRoute st now userId deviceId sessionId token loc
          = (Inl (HttpError 400 ''Invalid session or token''), st)"
    by (simp add: markRoute_def)
next
  assume "token \<noteq> []"
    and "findById se_id (sessions st) sessionId = Some s \<and> se_token s = token
        \<and> (\<not> se_isActive s \<or> se_expiresAt s < now)"
  then show "markRoute st now userId deviceId sessionId token loc
          = (Inl (HttpError 500 ''Invalid or expired session''), st)"
    by (auto simp: markRoute_def markAttendance_def catch500_def)
next
  assume "token \<noteq> []"
    and "findById se_id (sessions st) sessionId = Some s \<and> se_token s = token
        \<and> se_isActive s \<and> now \<le> se_expiresAt s
        \<and> duplicateMark st now s userId \<noteq> None"
  then show "markRoute st now userId deviceId sessionId token loc
          = (Inl (HttpError 500 ''Attendance already marked''), st)"
    by (auto simp: markRoute_def markAttendance_def catch500_def)
next
  assume t: "token \<noteq> []"
    and h: "findById se_id (sessions st) sessionId = Some s \<and> se_token s = token
        \<and> se_isActive s \<and> now \<le> se_expiresAt s
        \<and> duplicateMark st now s userId = None \<and> periodInRange (se_period s)"
  have "markRoute st now userId deviceId sessionId token loc =
     (Inr (classEvent st now s userId deviceId loc),
      st\<lparr>attendances := attendances st @ [classEvent st now s userId deviceId loc],
         nextId := Suc (nextId st),
         sessions := map (\<lambda>x. if se_id x = sessionId
                               then x\<lparr>se_presentStudents := se_presentStudents x @ [userId]\<rparr>
                               else x) (sessions st)\<rparr>)"
    using t h by (intro markRoute_inserts) simp_all
  then show "\<exists>a st'. markRoute st now userId deviceId sessionId token loc = (Inr a, st')
           \<and> at_studentId a = userId \<and> at_type a = CLASS \<and> at_status a = PRESENT
           \<and> at_period a = Some (se_period s)
           \<and> attendances st' = attendances st @ [a]"
    by (simp add: classEvent_def)
qed

theorem markRoute_validation_order_witness:
  "markRoute oneSession mon_0905 1 None 999 ''aa'' None
     = (Inl (HttpError 400 ''Invalid session or token''), oneSession)
   \<and> markRoute oneSession mon_0920 1 None 100 ''zz'' None
     = (Inl (HttpError 400 ''Invalid session or token''), oneSession)
   \<and> markRoute oneSession mon_0920 1 None 100 ''aa'' None
     = (Inl (HttpError 500 ''Invalid or expired session''), oneSession)
   \<and> markRoute approvedThenSession mon_0905 1 None 101 ''aa'' None
     = (Inl (HttpError 500 ''Attendance already marked''), approvedThenSession)
   \<and> (\<exists>a st'. markRoute oneSession mon_0905 1 None 100 ''aa'' None = (Inr a, st')
        \<and> at_studentId a = 1 \<and> at_type a = CLASS \<and> at_status a = PRESENT
        \<and> at_period a = Some 3 \<and> attendances st' = attendances oneSession @ [a])"
proof -
  have f: "findById se_id (sessions approvedThenSession) 101 = Some (bleSession\<lparr>se_id := 101\<rparr>)"
    by (simp add: approvedThenSession_def bleSession_def store1_def manualRequest_def
        handlers people instants clock)
  have e: "duplicateMark approvedThenSession mon_0905 (bleSession\<lparr>se_id := 101\<rparr>) 1 \<noteq> None"
    by (simp add: approvedThenSession_def bleSession_def store1_def manualRequest_def
        handlers people instants clock)
  have n: "findById se_id (sessions oneSession) 999 = None"
    by (simp add: oneSession_eq findById_def bleSession_def)
  have h: "se_token bleSession = ''aa''" "se_isActive bleSession"
    "mon_0905 \<le> se_expiresAt bleSession" "se_expiresAt bleSession < mon_0920"
    "periodInRange (se_period bleSession)" "se_period bleSession = 3"
    by (simp_all add: bleSession_def instants periodInRange_def)
  have d: "duplicateMark oneSession mon_0905 bleSession 1 = None"
    by (simp add: duplicateMark_def oneSession_eq store0_def)
  show ?thesis
    using n h d findById_oneSession
      markRoute_validation_order [of "''aa''" oneSession 999 mon_0905 1 None None bleSession]
      markRoute_validation_order [of "''zz''" oneSession 100 mon_0920 1 None None bleSession]
      markRoute_validation_order [of "''aa''" oneSession 100 mon_0920 1 None None bleSession]
      markRoute_validation_order [of "''aa''" oneSession 100 mon_0905 1 None None bleSession]
      markRoute_validation_order [of "''aa''" approvedThenSession 101 mon_0905 1 None None
        "bleSession\<lparr>se_id := 101\<rparr>"]
    using f e by simp
qed

section \<open>The attendance report\<close>

lemma update_absent: "map_of al k = None \<Longrightarrow> AList.update k v al = al @ [(k, v)]"
  by (induction al) (auto split: if_splits)

lemma update_present:
  "distinct (map fst al) \<Longrightarrow> k \<in> fst ` set al
   \<Longrightarrow> AList.update k v' al = map (\<lambda>p. if fst p = k then (k, v') else p) al"
proof (induction al)
  case Nil
  then show ?case by simp
next
  case (Cons p al)
  show ?case
  proof (cases "fst p = k")
    case True
    with Cons.prems have "k \<notin> fst ` set al" by auto
    then have "map (\<lambda>p. if fst p = k then (k, v') else p) al = al"
      by (induction al) auto
    with True show ?thesis by (cases p) simp
  next
    case False
    with Cons show ?thesis by (cases p) auto
  qed
qed

lemma stats_init:
  "distinct (map st_id roster) \<Longrightarrow> st_id ` set roster \<inter> fst ` set acc = {}
   \<Longrightarrow> foldl (\<lambda>acc student. AList.update (st_id student) (emptyRow student) acc) acc roster
       = acc @ map (\<lambda>s. (st_id s, emptyRow s)) roster"
proof (induction roster arbitrary: acc)
  case Nil
  then show ?case by simp
next
  case (Cons s roster)
  from Cons.prems have "st_id s \<notin> fst ` set acc" by auto
  then have "map_of acc (st_id s) = None" by (simp add: map_of_eq_None_iff)
  then have u: "AList.update (st_id s) (emptyRow s) acc = acc @ [(st_id s, emptyRow s)]"
    by (rule update_absent)
  have "st_id ` set roster \<inter> fst ` set (acc @ [(st_id s, emptyRow s)]) = {}"
    using Cons.prems by auto
  moreover have "distinct (map st_id roster)" using Cons.prems by simp
  ultimately show ?case using Cons.IH [of "acc @ [(st_id s, emptyRow s)]"] u by simp
qed

lemma counted_closed:
  "counted row evs = row\<lparr>r_totalClasses := r_totalClasses row + length evs,
      r_present := r_present row + length (filter (\<lambda>a. at_status a = PRESENT) evs),
      r_absent := r_absent row + length (filter (\<lambda>a. at_status a \<noteq> PRESENT) evs)\<rparr>"
  unfolding counted_def
  by (induction evs arbitrary: row) (simp_all add: countRecord_def Let_def)

lemma tally_counts:
  assumes "distinct (map fst stats)"
    and "\<forall>a \<in> set evs. at_studentId a \<in> st_id ` set studs"
  shows "tally studs stats evs
     = Inr (map (\<lambda>p. (fst p, counted (snd p) (filter (\<lambda>a. at_studentId a = fst p) evs))) stats)"
  using assms
proof (induction evs arbitrary: stats)
  case Nil
  then show ?case by (simp add: counted_def)
next
  case (Cons ev rest)
  let ?k = "at_studentId ev"
  from Cons.prems(2) obtain populated where
    f: "findById st_id studs ?k = Some populated" and i: "st_id populated = ?k"
    by (cases "findById st_id studs ?k")
      (auto simp: findById_def find_None_iff dest: find_Some_iff[THEN iffD1])
  have rest: "\<forall>a \<in> set rest. at_studentId a \<in> st_id ` set studs" using Cons.prems(2) by simp
  show ?case
  proof (cases "map_of stats ?k")
    case None
    then have "?k \<notin> fst ` set stats" by (simp add: map_of_eq_None_iff)
    then have "map (\<lambda>p. (fst p, counted (snd p) (filter (\<lambda>a. at_studentId a = fst p) (ev # rest)))) stats
        = map (\<lambda>p. (fst p, counted (snd p) (filter (\<lambda>a. at_studentId a = fst p) rest))) stats"
      by (intro map_cong) auto
    with None f i Cons.IH [OF Cons.prems(1) rest] show ?thesis by simp
  next
    case (Some row)
    let ?stats' = "AList.update ?k (countRecord ev row) stats"
    from Some have mem: "?k \<in> fst ` set stats"
      by (metis map_of_eq_None_iff option.distinct(1))
    have u: "?stats' = map (\<lambda>p. if fst p = ?k then (?k, countRecord ev row) else p) stats"
      using Cons.prems(1) mem by (rule update_present)
    have d: "distinct (map fst ?stats')" using Cons.prems(1) by (simp add: distinct_update)
    have "map (\<lambda>p. (fst p, counted (snd p) (filter (\<lambda>a. at_studentId a = fst p) rest))) ?stats'
        = map (\<lambda>p. (fst p, counted (snd p) (filter (\<lambda>a. at_studentId a = fst p) (ev # rest)))) stats"
      unfolding u map_map
    proof (intro map_cong refl)
      fix p assume p: "p \<in> set stats"
      show "((\<lambda>p. (fst p, counted (snd p) (filter (\<lambda>a. at_studentId a = fst p) rest)))
              \<circ> (\<lambda>p. if fst p = ?k then (?k, countRecord ev row) else p)) p
          = (fst p, counted (snd p) (filter (\<lambda>a. at_studentId a = fst p) (ev # rest)))"
      proof (cases "fst p = ?k")
        case True
        with p Cons.prems(1) Some have "snd p = row"
          by (metis map_of_is_SomeI option.inject prod.collapse)
        with True show ?thesis by (simp add: counted_def)
      next
        case False
        then show ?thesis by auto
      qed
    qed
    with Some f i Cons.IH [OF d rest] show ?thesis by simp
  qed
qed

lemma distinct_roster:
  assumes "distinct (map st_id studs)"
  shows "distinct (map st_id (sort_key k (filter P studs)))"
proof -
  from assms have "distinct (map st_id (filter P studs))" by (rule distinct_map_filter)
  then show ?thesis by (simp add: distinct_map)
qed

lemma length_filter_sort_key: "length (filter P (sort_key k xs)) = length (filter P xs)"
  by (simp add: filter_sort)

lemma row_closed:
  "percentage (counted (emptyRow s)
       (filter (\<lambda>a. at_studentId a = st_id s)
          (sort_key k (filter (\<lambda>a. at_classId a = c \<and> sd \<le> at_date a \<and> at_date a \<le> ed)
             (attendances st)))))
     = studentRow st c sd ed s"
proof -
  let ?evs = "filter (\<lambda>a. inReport c sd ed a \<and> at_studentId a = st_id s) (attendances st)"
  let ?srt = "filter (\<lambda>a. at_studentId a = st_id s)
          (sort_key k (filter (\<lambda>a. at_classId a = c \<and> sd \<le> at_date a \<and> at_date a \<le> ed)
             (attendances st)))"
  have s: "?srt = sort_key k ?evs"
    by (simp add: filter_sort inReport_def conj_commute)
  have t: "length ?srt = length ?evs" by (simp add: s)
  have p: "length (filter (\<lambda>a. at_status a = PRESENT) ?srt)
      = length (filter (\<lambda>a. at_status a = PRESENT) ?evs)"
    unfolding s by (rule length_filter_sort_key)
  have a: "length (filter (\<lambda>a. at_status a \<noteq> PRESENT) ?srt)
      = length ?evs - length (filter (\<lambda>a. at_status a = PRESENT) ?evs)"
    using sum_length_filter_compl [of "\<lambda>a. at_status a = PRESENT" ?srt] p t by simp
  show ?thesis
    unfolding counted_closed t p a
    by (simp add: percentage_def studentRow_def emptyRow_def Let_def)
qed

lemma report_closed_form:
  assumes "distinct (map st_id (students st))"
    and "\<forall>a \<in> set (attendances st).
           inReport c sd ed a \<longrightarrow> at_studentId a \<in> st_id ` set (students st)"
  shows "generateAttendanceReport st c sd ed
     = Inr (map (studentRow st c sd ed)
              (sort_key st_rollNumber (filter (\<lambda>s. st_classId s = c) (students st))))"
proof -
  let ?roster = "sort_key st_rollNumber (filter (\<lambda>s. st_classId s = c) (students st))"
  let ?found = "sort_key (\<lambda>a. (- at_date a, at_period a))
                    (filter (\<lambda>a. at_classId a = c \<and> sd \<le> at_date a \<and> at_date a \<le> ed)
                       (attendances st))"
  let ?stats = "map (\<lambda>s. (st_id s, emptyRow s)) ?roster"
  have dr: "distinct (map st_id ?roster)" using assms(1) by (rule distinct_roster)
  have init: "foldl (\<lambda>acc student. AList.update (st_id student) (emptyRow student) acc)
                [] ?roster = ?stats"
    using stats_init [OF dr, of "[]"] by simp
  have ds: "distinct (map fst ?stats)" using dr by (simp add: comp_def)
  have ex: "\<forall>a \<in> set ?found. at_studentId a \<in> st_id ` set (students st)"
    using assms(2) by (simp add: inReport_def)
  have t: "tally (students st) ?stats ?found
     = Inr (map (\<lambda>p. (fst p, counted (snd p) (filter (\<lambda>a. at_studentId a = fst p) ?found)))
              ?stats)"
    using ds ex by (rule tally_counts)
  show ?thesis
    unfolding generateAttendanceReport_def Let_def init t
    by (simp add: comp_def row_closed)
qed

lemma pct_1_1: "mathRound (jsMul (jsDiv (of_nat 1) (of_nat 1)) 100) = 100"
  by code_simp

lemma pct_8_10: "mathRound (jsMul (jsDiv (of_nat 8) (of_nat 10)) 100) = 80"
  by code_simp

lemma roster10: "sort_key st_rollNumber (filter (\<lambda>s. st_classId s = 10) [alice, bob, charlie]) = [alice, bob]"
  by (simp add: alice_def bob_def charlie_def)

lemma percentage_binary64_example:
  "mathRound (jsMul (jsDiv (of_nat 23) (of_nat 40)) 100) = 57
   \<and> \<lfloor>(of_nat 23 / of_nat 40 * 100 + 1 / 2 :: rat)\<rfloor> = 58"
  by code_simp

text \<open>
  C8 (as stated, refuted). The claim has the report aggregate CLASS events only. The query of
  \<^verbatim>\<open>generateAttendanceReport\<close> selects by classId and date range, with no condition on the
  type: for student 1, whose only event in the range is a CAMPUS event, the report gives
  totalClasses = 1, present = 1, percentage = 100.
\<close>

theorem report_counts_campus_events_counterexample:
  "map at_type (attendances campusOnly) = [CAMPUS]
   \<and> generateAttendanceReport campusOnly 10 monday mon_1100
     = Inr [\<lparr>r_name = ''Alice Johnson'', r_rollNumber = ''CSE202100001'', r_totalClasses = 1,
             r_present = 1, r_absent = 0, r_percentage = 100\<rparr>,
            \<lparr>r_name = ''Bob Wilson'', r_rollNumber = ''CSE202100002'', r_totalClasses = 0,
             r_present = 0, r_absent = 0, r_percentage = 0\<rparr>]"
proof -
  have c: "campusOnly = store0\<lparr>attendances :=
      [\<lparr>at_id = 100, at_studentId = 1, at_classId = 10, at_date = mon_1000, at_type = CAMPUS,
        at_period = None, at_status = PRESENT, at_mode = Some GPS,
        at_location = Some campusCentre, at_deviceId = None, at_markedBy = None,
        at_reason = None, at_createdAt = mon_1000\<rparr>], nextId := 101\<rparr>"
    using isWithinCampus_centre
    by (simp add: campusOnly_def handlers people instants clock)
  have d: "distinct (map st_id (students campusOnly))"
    by (simp add: c people)
  have e: "\<forall>a \<in> set (attendances campusOnly).
           inReport 10 monday mon_1100 a \<longrightarrow> at_studentId a \<in> st_id ` set (students campusOnly)"
    by (simp add: c people)
  have r: "sort_key st_rollNumber (filter (\<lambda>s. st_classId s = 10) (students campusOnly))
      = [alice, bob]"
    unfolding c by (simp only: store0_def store.simps roster10)
  have ra: "studentRow campusOnly 10 monday mon_1100 alice
      = \<lparr>r_name = ''Alice Johnson'', r_rollNumber = ''CSE202100001'', r_totalClasses = 1,
           r_present = 1, r_absent = 0, r_percentage = 100\<rparr>"
    using pct_1_1 by (simp add: studentRow_def c inReport_def alice_def instants)
  have rb: "studentRow campusOnly 10 monday mon_1100 bob
      = \<lparr>r_name = ''Bob Wilson'', r_rollNumber = ''CSE202100002'', r_totalClasses = 0,
           r_present = 0, r_absent = 0, r_percentage = 0\<rparr>"
    by (simp add: studentRow_def c inReport_def bob_def instants)
  have ty: "map at_type (attendances campusOnly) = [CAMPUS]"
    by (simp add: c)
  show ?thesis
    unfolding report_closed_form [OF d e] r
    by (simp add: ra rb ty)
qed

text \<open>
  C8 (amended). For every classId, startDate, endDate and store in which student ids are
  unique and every selected event belongs to a stored student: the report has one row per
  student of the class, in rollNumber order, and aggregates all the events of the class in
  the date range, CAMPUS and CLASS alike, of that student: totalClasses is their count,
  present the count with status PRESENT, absent = totalClasses - present, and percentage
  is 0 when totalClasses = 0 and otherwise \<^verbatim>\<open>Math.round((present / totalClasses) * 100)\<close> as
  binary64 computes it. The result is a function of the store and the store is not written.
\<close>

theorem report_rows_closed_form:
  "distinct (map st_id (students st))
   \<and> (\<forall>a \<in> set (attendances st).
         inReport c sd ed a \<longrightarrow> at_studentId a \<in> st_id ` set (students st))
   \<longrightarrow> generateAttendanceReport st c sd ed
       = Inr (map (studentRow st c sd ed)
                (sort_key st_rollNumber (filter (\<lambda>s. st_classId s = c) (students st))))"
  using report_closed_form [of st c sd ed] by blast

theorem report_rows_closed_form_witness:
  "generateAttendanceReport tenClasses 10 monday wednesday
     = Inr [\<lparr>r_name = ''Alice Johnson'', r_rollNumber = ''CSE202100001'', r_totalClasses = 10,
             r_present = 8, r_absent = 2, r_percentage = 80\<rparr>,
            \<lparr>r_name = ''Bob Wilson'', r_rollNumber = ''CSE202100002'', r_totalClasses = 0,
             r_present = 0, r_absent = 0, r_percentage = 0\<rparr>]"
proof -
  have d: "distinct (map st_id (students tenClasses))"
    by (simp add: tenClasses_def people)
  have e: "\<forall>a \<in> set (attendances tenClasses).
      inReport 10 monday wednesday a
        \<longrightarrow> at_studentId a \<in> st_id ` set (students tenClasses)"
    by (simp add: tenClasses_def classMark_def people)
  have r: "sort_key st_rollNumber (filter (\<lambda>s. st_classId s = 10) (students tenClasses))
      = [alice, bob]"
    unfolding tenClasses_def by (simp only: store0_def store.simps roster10)
  have ra: "studentRow tenClasses 10 monday wednesday alice
      = \<lparr>r_name = ''Alice Johnson'', r_rollNumber = ''CSE202100001'', r_totalClasses = 10,
           r_present = 8, r_absent = 2, r_percentage = 80\<rparr>"
    using pct_8_10
    by (simp add: studentRow_def tenClasses_def classMark_def inReport_def alice_def instants wednesday_def)
  have rb: "studentRow tenClasses 10 monday wednesday bob
      = \<lparr>r_name = ''Bob Wilson'', r_rollNumber = ''CSE202100002'', r_totalClasses = 0,
           r_present = 0, r_absent = 0, r_percentage = 0\<rparr>"
    by (simp add: studentRow_def tenClasses_def classMark_def inReport_def bob_def instants wednesday_def)
  show ?thesis
    using d e report_rows_closed_form [of tenClasses 10 monday wednesday]
    by (simp add: r ra rb)
qed

end
